theory Spec2Isabelle
  imports Complex_Main "HOL-Library.Word"
begin

unbundle bit_operations_syntax

section \<open>Python exceptions\<close>

text \<open>
  The exceptions the lowering pass raises. \<open>LoweringException\<close> carries the
  exception it was raised \<open>from\<close> (its cause); the message strings of the source
  are kept where a claim reads them.
\<close>

datatype exn =
    NotImplementedError string
  | ValueError string
  | AssertionError
  | RuntimeError string
  | IndexError
  | KeyError
  | TypeError
  | AttributeError
  | OverflowError
  | ZeroDivisionError
  | StopIteration
  | LoweringException exn

section \<open>Grid mapping: dimension semantics\<close>

text \<open>
  \<open>MosaicGridMapping.__init__\<close>, the part that computes \<open>_dimension_semantics\<close>.
  \<open>grid\<close> is the tuple of grid sizes, \<open>mapped_dims\<close> the tuple of indices of the
  vmapped grid dimensions, \<open>dimension_semantics\<close> the optional user tuple whose
  entries are strings or \<open>None\<close>.
\<close>

text \<open>
  The generator \<open>next(semantics_iter) if i not in mapped_dims else "parallel"
  for i in range(len(grid))\<close>: \<open>i\<close> is the current index, \<open>n\<close> the number of
  indices left, the list the unconsumed part of the iterator. An exhausted
  iterator inside a generator is a \<open>RuntimeError\<close>.
\<close>

fun semantics_gen :: "int \<Rightarrow> nat \<Rightarrow> int list \<Rightarrow> string option list \<Rightarrow> exn + string option list" where
  "semantics_gen i 0 mapped_dims it = Inr []"
| "semantics_gen i (Suc n) mapped_dims it =
     (if i \<notin> set mapped_dims then
        (case it of
           [] \<Rightarrow> Inl (RuntimeError ''generator raised StopIteration'')
         | s # it' \<Rightarrow>
             (case semantics_gen (i + 1) n mapped_dims it' of
                Inl e \<Rightarrow> Inl e
              | Inr r \<Rightarrow> Inr (s # r)))
      else
        (case semantics_gen (i + 1) n mapped_dims it of
           Inl e \<Rightarrow> Inl e
         | Inr r \<Rightarrow> Inr (Some ''parallel'' # r)))"

definition user_grid :: "'g list \<Rightarrow> int list \<Rightarrow> 'g list" where
  "user_grid grid mapped_dims =
     map snd (filter (\<lambda>(i, g). int i \<notin> set mapped_dims) (enumerate 0 grid))"

definition MosaicGridMapping_init ::
  "'g list \<Rightarrow> int list \<Rightarrow> string option list option \<Rightarrow> exn + string option list" where
  "MosaicGridMapping_init grid mapped_dims dimension_semantics =
     (let ug = user_grid grid mapped_dims;
          ds = (case dimension_semantics of
                  None \<Rightarrow> replicate (length ug) (Some ''arbitrary'')
                | Some d \<Rightarrow> d)
      in if length ug \<noteq> length ds then
           Inl (ValueError ''Must have dimension semantics for each dimension of the grid.'')
         else if length mapped_dims + length ds \<noteq> length grid then
           Inl AssertionError
         else semantics_gen 0 (length grid) mapped_dims ds)"

text \<open>\<open>MosaicGridMapping.get_dimension_semantics\<close>: the attribute text of each dimension.\<close>

definition get_semantics :: "string option \<Rightarrow> string" where
  "get_semantics s =
     (case s of
        None \<Rightarrow> ''#tpu.dimension_semantics<arbitrary>''
      | Some t \<Rightarrow> ''#tpu.dimension_semantics<'' @ t @ ''>'')"

definition get_dimension_semantics :: "string option list \<Rightarrow> string list" where
  "get_dimension_semantics sem = map get_semantics sem"

section \<open>Block-shape legality\<close>

text \<open>
  The validation loop at the head of \<open>lower_jaxpr_to_module\<close>. A block mapping is
  read through the attributes the loop uses: \<open>block_shape\<close> (entries are sizes or
  the \<open>mapped\<close> marker), \<open>array_shape_dtype.shape\<close>, the bit width of
  \<open>array_shape_dtype.dtype\<close> (what \<open>lax_internal._bit_width\<close> returns),
  \<open>block_aval.memory_space\<close> and the result of \<open>has_trivial_window()\<close>.
\<close>

datatype memory_space = ANY | VMEM | SMEM | SEMAPHORE | ERROR | INDEX

datatype block_dim = Mapped | Blocked int

record block_mapping =
  block_shape :: "block_dim list"
  array_shape :: "int list"
  array_bit_width :: int
  bm_memory_space :: "memory_space option"
  has_trivial_window :: bool

definition unmapped :: "block_dim \<Rightarrow> int" where
  "unmapped b = (case b of Mapped \<Rightarrow> 1 | Blocked n \<Rightarrow> n)"

text \<open>Python's \<open>xs[-k]\<close> for \<open>k \<ge> 1\<close>: the k-th element from the end, or IndexError.\<close>

definition from_end :: "'a list \<Rightarrow> nat \<Rightarrow> exn + 'a" where
  "from_end xs k = (if 1 \<le> k \<and> k \<le> length xs then Inr (xs ! (length xs - k)) else Inl IndexError)"

text \<open>Python's \<open>a % b\<close> on integers: ZeroDivisionError when \<open>b = 0\<close>, else the floored remainder.\<close>

definition py_mod :: "int \<Rightarrow> int \<Rightarrow> exn + int" where
  "py_mod a b = (if b = 0 then Inl ZeroDivisionError else Inr (a mod b))"

definition py_floordiv :: "int \<Rightarrow> int \<Rightarrow> exn + int" where
  "py_floordiv a b = (if b = 0 then Inl ZeroDivisionError else Inr (a div b))"

definition rank_error_old :: string where
  "rank_error_old = ''The Pallas TPU lowering currently supports only blocks of rank >= 2 for blocks, except those in the SMEM memory space having the same block shape as the array shape and a trivial index_map (returning all 0s). ''"

definition rank_error :: string where
  "rank_error = ''The Pallas TPU lowering currently supports only blocks of rank >= 1. ''"

definition any_window_error :: string where
  "any_window_error = ''The Pallas TPU lowering currently supports in memory space ANY only blocks having the same block shape as the array shape and a trivial index_map (returning all 0s).''"

definition divisible_error_old :: string where
  "divisible_error_old = ''The Pallas TPU lowering currently requires that the last two dimensions of your block shape are divisible by 8 and 128 respectively, if the respective dimensions of the overall array are larger than the respective factors. If array dimensions are smaller, the block should span the full array dimension. ''"

definition divisible_error :: string where
  "divisible_error = ''The Pallas TPU lowering currently requires that the last two dimensions of your block shape are divisible by 8 and 128 respectively, or be equal to the respective dimensions of the overall array. ''"

text \<open>
  The rank-1 branch of the divisibility test: \<open>tiling_size = 128 * (32 // bit_width)\<close>,
  \<open>evenly_divisible = (bs0 == as0 or bs0 % tiling_size == 0)\<close>, with Python's
  short-circuit \<open>or\<close>.
\<close>

definition rank1_divisible :: "int \<Rightarrow> int \<Rightarrow> int \<Rightarrow> exn + bool" where
  "rank1_divisible bs0 as0 bit_width =
     (case py_floordiv 32 bit_width of
        Inl e \<Rightarrow> Inl e
      | Inr q \<Rightarrow>
          (let tiling_size = 128 * q
           in if bs0 = as0 then Inr True
              else (case py_mod bs0 tiling_size of
                      Inl e \<Rightarrow> Inl e
                    | Inr r \<Rightarrow> Inr (r = 0))))"

text \<open>
  One iteration of the loop. \<open>forward_compat\<close> is
  \<open>lowering_context.is_forward_compat()\<close> and \<open>old_jaxlib\<close> is
  \<open>jaxlib_version < (0, 4, 32)\<close>. \<open>Inr ()\<close> is an iteration that raises nothing
  (it falls through or takes the \<open>continue\<close>).
\<close>

definition check_block_mapping :: "bool \<Rightarrow> bool \<Rightarrow> block_mapping \<Rightarrow> exn + unit" where
  "check_block_mapping forward_compat old_jaxlib bm =
     (let rank = length (block_shape bm) in
      if bm_memory_space bm = Some SMEM \<and> has_trivial_window bm then Inr ()
      else if (forward_compat \<or> old_jaxlib) \<and> rank < 2 then Inl (ValueError rank_error_old)
      else if \<not> (forward_compat \<or> old_jaxlib) \<and> rank < 1 then Inl (ValueError rank_error)
      else if bm_memory_space bm = Some ANY \<and> \<not> has_trivial_window bm then
        Inl (ValueError any_window_error)
      else
        (let unmapped_bs = map unmapped (block_shape bm) in
         case from_end unmapped_bs 1 of Inl e \<Rightarrow> Inl e | Inr bs0 \<Rightarrow>
         case from_end (array_shape bm) 1 of Inl e \<Rightarrow> Inl e | Inr as0 \<Rightarrow>
         case (if rank \<ge> 2 then
                 (case from_end unmapped_bs 2 of Inl e \<Rightarrow> Inl e | Inr bs1 \<Rightarrow>
                  case from_end (array_shape bm) 2 of Inl e \<Rightarrow> Inl e | Inr as1 \<Rightarrow>
                  Inr (bs1, as1))
               else Inr (1, 1)) of Inl e \<Rightarrow> Inl e | Inr (bs1, as1) \<Rightarrow>
         if forward_compat then
           (if (bs0 mod 128 = 0 \<or> (bs0 = as0 \<and> as0 < 128)) \<and>
               (bs1 mod 8 = 0 \<or> (bs1 = as1 \<and> as1 < 8))
            then Inr () else Inl (ValueError divisible_error_old))
         else
           (case (if rank \<ge> 2 then
                    Inr ((bs0 = as0 \<or> bs0 mod 128 = 0) \<and> (bs1 = as1 \<or> bs1 mod 8 = 0))
                  else if rank = 1 then rank1_divisible bs0 as0 (array_bit_width bm)
                  else Inl AssertionError) of
              Inl e \<Rightarrow> Inl e
            | Inr evenly_divisible \<Rightarrow>
                if \<not> evenly_divisible then Inl (ValueError divisible_error) else Inr ())))"

text \<open>The loop \<open>for bm in grid_mapping.block_mappings\<close>: the first exception ends it.\<close>

fun check_block_mappings :: "bool \<Rightarrow> bool \<Rightarrow> block_mapping list \<Rightarrow> exn + unit" where
  "check_block_mappings forward_compat old_jaxlib [] = Inr ()"
| "check_block_mappings forward_compat old_jaxlib (bm # bms) =
     (case check_block_mapping forward_compat old_jaxlib bm of
        Inl e \<Rightarrow> Inl e
      | Inr _ \<Rightarrow> check_block_mappings forward_compat old_jaxlib bms)"

text \<open>The two block mappings of the block-shape legality scenario.\<close>

definition bm_256_256 :: "memory_space option \<Rightarrow> int \<Rightarrow> block_mapping" where
  "bm_256_256 ms w = \<lparr>block_shape = [Blocked 128, Blocked 128], array_shape = [256, 256],
     array_bit_width = w, bm_memory_space = ms, has_trivial_window = False\<rparr>"

definition bm_256_100 :: "memory_space option \<Rightarrow> int \<Rightarrow> block_mapping" where
  "bm_256_100 ms w = \<lparr>block_shape = [Blocked 128, Blocked 50], array_shape = [256, 100],
     array_bit_width = w, bm_memory_space = ms, has_trivial_window = False\<rparr>"

section \<open>The target IR\<close>

text \<open>
  Element dtypes of abstract values: NumPy's numeric dtypes and the semaphore
  dtypes of \<open>tpu_core\<close> (\<open>SemaphoreDtype\<close> is the abstract parent
  \<open>tpu_core.semaphore_dtype\<close>).
\<close>

datatype dtype =
    Bool | Int8 | Int16 | Int32 | Int64 | UInt8 | UInt16 | UInt32 | UInt64
  | Float16 | BFloat16 | Float32 | Float64
  | Semaphore | DmaSemaphore | BarrierSemaphore | SemaphoreDtype

text \<open>
  MLIR types. Integers are signless and carry their width; the memory space of a
  memref is the \<open>#tpu.memory_space<...>\<close> attribute, written as the space it names.
\<close>

datatype ir_type =
    IntegerType nat
  | F16Type | BF16Type | F32Type | F64Type
  | IndexType
  | VectorType "int list" ir_type
  | MemRefType "int list" ir_type memory_space
  | TpuSemaphoreType
  | TpuDmaSemaphoreType

datatype attr =
    IntegerAttr ir_type int
  | FloatAttr ir_type real
  | BoolAttr bool
  | StringAttr string
  | DenseSplatAttr ir_type attr
  | DenseI64ArrayAttr "int list"

text \<open>
  An operation has a name, operands, named attributes, result types and regions
  (each region one block, a list of operations). A value is the k-th result of an
  operation or a block argument; a block argument is named by the operation that
  owns its block (name and operands), its position and its type.
\<close>

datatype ir_value =
    OpResult op nat
  | BlockArgument string "ir_value list" nat ir_type
and op =
    Operation string "ir_value list" "(string \<times> attr) list" "ir_type list" "op list list"

fun op_name :: "op \<Rightarrow> string" where
  "op_name (Operation n _ _ _ _) = n"

fun op_operands :: "op \<Rightarrow> ir_value list" where
  "op_operands (Operation _ xs _ _ _) = xs"


fun op_result_types :: "op \<Rightarrow> ir_type list" where
  "op_result_types (Operation _ _ _ ts _) = ts"

fun op_regions :: "op \<Rightarrow> op list list" where
  "op_regions (Operation _ _ _ _ rs) = rs"

fun value_type :: "ir_value \<Rightarrow> ir_type" where
  "value_type (OpResult (Operation _ _ _ ts _) k) = ts ! k"
| "value_type (BlockArgument _ _ _ t) = t"

text \<open>
  A lowering function returns its Python result together with the operations it
  inserted at the current insertion point, in order, or the exception it raised.
\<close>

type_synonym 'a lowered = "exn + 'a \<times> op list"

definition returns :: "'a \<Rightarrow> 'a lowered" where
  "returns x = Inr (x, [])"

definition emit :: "op \<Rightarrow> ir_value lowered" where
  "emit o1 = Inr (OpResult o1 0, [o1])"

definition then_do :: "'a lowered \<Rightarrow> ('a \<Rightarrow> 'b lowered) \<Rightarrow> 'b lowered" where
  "then_do m f =
     (case m of
        Inl e \<Rightarrow> Inl e
      | Inr (x, ops) \<Rightarrow>
          (case f x of
             Inl e \<Rightarrow> Inl e
           | Inr (y, ops') \<Rightarrow> Inr (y, ops @ ops')))"

subsection \<open>Type mapping\<close>

text \<open>\<open>_memory_space_to_tpu_memspace\<close>.\<close>

definition memory_space_to_tpu_memspace :: "memory_space option \<Rightarrow> memory_space" where
  "memory_space_to_tpu_memspace ms =
     (case ms of
        None \<Rightarrow> VMEM
      | Some ERROR \<Rightarrow> SMEM
      | Some INDEX \<Rightarrow> SMEM
      | Some m \<Rightarrow> m)"

text \<open>
  \<open>mlir.dtype_to_ir_type\<close> followed by the signless normalisation of
  \<open>_dtype_to_ir_type\<close>: an integer dtype, signed or unsigned, becomes the signless
  integer type of its width.
\<close>

definition numeric_ir_type :: "dtype \<Rightarrow> ir_type" where
  "numeric_ir_type d =
     (case d of
        Bool \<Rightarrow> IntegerType 1
      | Int8 \<Rightarrow> IntegerType 8 | UInt8 \<Rightarrow> IntegerType 8
      | Int16 \<Rightarrow> IntegerType 16 | UInt16 \<Rightarrow> IntegerType 16
      | Int32 \<Rightarrow> IntegerType 32 | UInt32 \<Rightarrow> IntegerType 32
      | Int64 \<Rightarrow> IntegerType 64 | UInt64 \<Rightarrow> IntegerType 64
      | Float16 \<Rightarrow> F16Type | BFloat16 \<Rightarrow> BF16Type
      | Float32 \<Rightarrow> F32Type | Float64 \<Rightarrow> F64Type
      | _ \<Rightarrow> TpuSemaphoreType)"

text \<open>\<open>BOOL_MEMREF_TYPE\<close>: booleans are stored as this dtype in memrefs.\<close>

definition BOOL_MEMREF_TYPE :: dtype where
  "BOOL_MEMREF_TYPE = Int32"

definition dtype_to_ir_type :: "dtype \<Rightarrow> bool \<Rightarrow> exn + ir_type" where
  "dtype_to_ir_type d is_kernel_boundary =
     (if d \<in> {Semaphore, DmaSemaphore, BarrierSemaphore, SemaphoreDtype} then
        (if d = DmaSemaphore then Inr TpuDmaSemaphoreType
         else if d = Semaphore then Inr TpuSemaphoreType
         else if d = BarrierSemaphore then Inr TpuSemaphoreType
         else Inl (NotImplementedError ''''))
      else
        Inr (numeric_ir_type (if is_kernel_boundary \<and> d = Bool then BOOL_MEMREF_TYPE else d)))"

subsection \<open>Host values and the constant materializer\<close>

text \<open>
  What \<open>ir_constant\<close> can be handed: a Python \<open>int\<close>, \<open>float\<close> or \<open>bool\<close>, a
  NumPy array (\<open>np.ndarray\<close>) or NumPy scalar (\<open>np.generic\<close>) with its dtype,
  or an object with neither a \<open>dtype\<close> attribute nor a numeric Python type.
  Floats are carried as reals; rounding to the target precision is not part of
  the model.
\<close>

datatype npval = IntVal int | FloatVal real | BoolVal bool

datatype host =
    PyInt int | PyFloat real | PyBool bool
  | NpArray dtype npval | NpScalar dtype npval
  | PyObject

text \<open>\<open>x.dtype\<close> and the payload, for the values that have them.\<close>

fun host_dtype :: "host \<Rightarrow> (dtype \<times> npval) option" where
  "host_dtype (NpArray d v) = Some (d, v)"
| "host_dtype (NpScalar d v) = Some (d, v)"
| "host_dtype _ = None"

text \<open>
  \<open>isinstance(x, float)\<close>: a Python float, and \<open>np.float64\<close> scalars, whose class
  derives from \<open>float\<close>. \<open>isinstance(x, int)\<close>: a Python int or bool; no NumPy
  class derives from \<open>int\<close>.
\<close>

fun isinstance_float :: "host \<Rightarrow> bool" where
  "isinstance_float (PyFloat _) = True"
| "isinstance_float (NpScalar d _) = (d = Float64)"
| "isinstance_float _ = False"

fun isinstance_int :: "host \<Rightarrow> bool" where
  "isinstance_int (PyInt _) = True"
| "isinstance_int (PyBool _) = True"
| "isinstance_int _ = False"

definition py_int :: "npval \<Rightarrow> int" where
  "py_int v = (case v of IntVal i \<Rightarrow> i
                 | FloatVal r \<Rightarrow> (if r \<ge> 0 then \<lfloor>r\<rfloor> else \<lceil>r\<rceil>)
                 | BoolVal b \<Rightarrow> (if b then 1 else 0))"

definition py_float :: "npval \<Rightarrow> real" where
  "py_float v = (case v of IntVal i \<Rightarrow> of_int i | FloatVal r \<Rightarrow> r
                   | BoolVal b \<Rightarrow> (if b then 1 else 0))"

definition py_bool :: "npval \<Rightarrow> bool" where
  "py_bool v = (case v of IntVal i \<Rightarrow> i \<noteq> 0 | FloatVal r \<Rightarrow> r \<noteq> 0 | BoolVal b \<Rightarrow> b)"

definition dtype_name :: "dtype \<Rightarrow> string" where
  "dtype_name d =
     (case d of
        Bool \<Rightarrow> ''bool'' | Int8 \<Rightarrow> ''int8'' | Int16 \<Rightarrow> ''int16'' | Int32 \<Rightarrow> ''int32''
      | Int64 \<Rightarrow> ''int64'' | UInt8 \<Rightarrow> ''uint8'' | UInt16 \<Rightarrow> ''uint16''
      | UInt32 \<Rightarrow> ''uint32'' | UInt64 \<Rightarrow> ''uint64'' | Float16 \<Rightarrow> ''float16''
      | BFloat16 \<Rightarrow> ''bfloat16'' | Float32 \<Rightarrow> ''float32'' | Float64 \<Rightarrow> ''float64''
      | Semaphore \<Rightarrow> ''semaphore'' | DmaSemaphore \<Rightarrow> ''dma_semaphore''
      | BarrierSemaphore \<Rightarrow> ''barrier_semaphore'' | SemaphoreDtype \<Rightarrow> ''semaphore_dtype'')"

text \<open>
  \<open>np.array(x, np.int32)\<close> on a Python integer: NumPy refuses a value outside the
  32-bit range with OverflowError.
\<close>

definition np_array_int32 :: "int \<Rightarrow> exn + host" where
  "np_array_int32 n =
     (if - (2 ^ 31) \<le> n \<and> n < 2 ^ 31 then Inr (NpArray Int32 (IntVal n)) else Inl OverflowError)"

definition arith_ConstantOp :: "ir_type \<Rightarrow> attr \<Rightarrow> op" where
  "arith_ConstantOp t a = Operation ''arith.constant'' [] [(''value'', a)] [t] []"

text \<open>
  \<open>ir_constant(x, mlir_type=None)\<close>. The first block converts a Python
  \<open>int\<close> (a \<open>bool\<close> is one) or \<open>float\<close> to a NumPy array; after it, reading
  \<open>x.dtype\<close> on an object without the attribute raises AttributeError.
\<close>

definition ir_constant :: "host \<Rightarrow> ir_type option \<Rightarrow> ir_value lowered" where
  "ir_constant x mlir_type =
     (case (if host_dtype x = None then
              (case x of
                 PyInt n \<Rightarrow> np_array_int32 n
               | PyBool b \<Rightarrow> np_array_int32 (if b then 1 else 0)
               | PyFloat r \<Rightarrow> Inr (NpArray Float32 (FloatVal r))
               | _ \<Rightarrow> Inr x)
            else Inr x) of
        Inl e \<Rightarrow> Inl e
      | Inr x' \<Rightarrow>
          (case host_dtype x' of
             None \<Rightarrow> Inl AttributeError
           | Some (d, v) \<Rightarrow>
               (case (case mlir_type of None \<Rightarrow> dtype_to_ir_type d False | Some t \<Rightarrow> Inr t) of
                  Inl e \<Rightarrow> Inl e
                | Inr t \<Rightarrow>
                    if isinstance_int x' \<or> d \<in> {Int32, UInt32, Int8} then
                      emit (arith_ConstantOp t (IntegerAttr t (py_int v)))
                    else if isinstance_float x' \<or> d = Float32 then
                      emit (arith_ConstantOp t (FloatAttr t (py_float v)))
                    else if d = BFloat16 then
                      emit (arith_ConstantOp t (FloatAttr t (py_float v)))
                    else if d = Bool then
                      emit (arith_ConstantOp t (BoolAttr (py_bool v)))
                    else Inl (NotImplementedError (dtype_name d)))))"

section \<open>Jaxprs and the lowering context\<close>

text \<open>
  Abstract values: arrays, references (an \<open>AbstractMemoryRef\<close> carries its memory
  space, a plain \<open>AbstractRef\<close> none) and semaphores. The extended PRNG-key dtypes
  are outside this model.
\<close>

datatype sem_type = REGULAR | DMA | BARRIER

datatype aval =
    ShapedArray "int list" dtype
  | AbstractRef "int list" dtype "memory_space option"
  | AbstractSemaphore sem_type

datatype var = Var nat aval

datatype atom = AVar var | Literal host aval

datatype primitive = Primitive string bool

fun primitive_name :: "primitive \<Rightarrow> string" where
  "primitive_name (Primitive n _) = n"

fun multiple_results :: "primitive \<Rightarrow> bool" where
  "multiple_results (Primitive _ m) = m"

text \<open>
  A jaxpr: \<open>constvars\<close>, \<open>invars\<close>, \<open>eqns\<close>, \<open>outvars\<close>. An equation: its
  primitive, input atoms, output variables, parameters and the names of the scopes
  of \<open>source_info.name_stack\<close>. A parameter is a nested jaxpr, a tuple of them
  (the branches of a conditional) or a plain Python value.
\<close>

datatype jaxpr = Jaxpr "var list" "var list" "eqn list" "atom list"
and eqn = Eqn primitive "atom list" "var list" "(string \<times> param) list" "string list"
and param = PJaxpr jaxpr | PJaxprs "jaxpr list" | PInt int | PBool bool | PNone

fun constvars :: "jaxpr \<Rightarrow> var list" where
  "constvars (Jaxpr c _ _ _) = c"

fun invars :: "jaxpr \<Rightarrow> var list" where
  "invars (Jaxpr _ i _ _) = i"

fun eqns :: "jaxpr \<Rightarrow> eqn list" where
  "eqns (Jaxpr _ _ e _) = e"

fun outvars :: "jaxpr \<Rightarrow> atom list" where
  "outvars (Jaxpr _ _ _ o1) = o1"

fun eqn_primitive :: "eqn \<Rightarrow> primitive" where
  "eqn_primitive (Eqn p _ _ _ _) = p"

fun eqn_invars :: "eqn \<Rightarrow> atom list" where
  "eqn_invars (Eqn _ i _ _ _) = i"

fun eqn_outvars :: "eqn \<Rightarrow> var list" where
  "eqn_outvars (Eqn _ _ o1 _ _) = o1"

fun eqn_params :: "eqn \<Rightarrow> (string \<times> param) list" where
  "eqn_params (Eqn _ _ _ p _) = p"

fun eqn_name_stack :: "eqn \<Rightarrow> string list" where
  "eqn_name_stack (Eqn _ _ _ _ n) = n"

fun atom_aval :: "atom \<Rightarrow> aval" where
  "atom_aval (AVar (Var _ a)) = a"
| "atom_aval (Literal _ a) = a"

fun var_aval :: "var \<Rightarrow> aval" where
  "var_aval (Var _ a) = a"

text \<open>
  What the environment holds and what rules are handed and return: an
  \<open>ir.Value\<close>, a \<open>KeyScalarBundle\<close> (key shape and scalars) or a raw host value
  read from a literal.
\<close>

datatype pyval = IR ir_value | KeyScalarBundle "int list" "ir_value list" | Host host

text \<open>The result of a rule: one value, or a sequence of values.\<close>

datatype ans = Single pyval | Multi "pyval list"

type_synonym block_shape = "block_dim list"

text \<open>
  \<open>LoweringContext\<close>, with the fields the dispatcher and the control-flow rules
  read, and \<open>LoweringRuleContext\<close>.
\<close>

record LoweringContext =
  grid_sizes :: "int list"
  ctx_mapped_dims :: "int list"
  block_shapes :: "block_shape option list"
  name_stack :: "string list"
  for_verification :: bool

record LoweringRuleContext =
  lowering_context :: LoweringContext
  avals_in :: "aval list"
  avals_out :: "aval list"
  rule_block_shapes :: "block_shape option list"

text \<open>
  A call that ran out of recursion depth is \<open>None\<close>; otherwise the call returned
  or raised. The dispatcher is handed to rules as their first argument, where the
  source's rules call the global \<open>jaxpr_subcomp\<close>.
\<close>

type_synonym 'a fueled = "'a lowered option"

type_synonym subcomp = "LoweringContext \<Rightarrow> jaxpr \<Rightarrow> pyval list \<Rightarrow> pyval list fueled"

type_synonym rule =
  "subcomp \<Rightarrow> LoweringRuleContext \<Rightarrow> pyval list \<Rightarrow> (string \<times> param) list \<Rightarrow> ans fueled"

text \<open>The two global tables: \<open>lowering_rules\<close> and \<open>skip_mlir_conversions\<close>.\<close>

record tables =
  lowering_rules :: "primitive \<Rightarrow> rule option"
  skip_mlir_conversions :: "primitive set"

section \<open>The equation-level dispatcher\<close>

text \<open>\<open>_compute_name_stack_updates\<close>: the loop finds the length of the common prefix.\<close>

fun common_prefix_idx :: "string list \<Rightarrow> string list \<Rightarrow> nat" where
  "common_prefix_idx (old # olds) (new # news) =
     (if old = new then Suc (common_prefix_idx olds news) else 0)"
| "common_prefix_idx _ _ = 0"

definition compute_name_stack_updates :: "string list \<Rightarrow> string list \<Rightarrow> string list \<times> string list" where
  "compute_name_stack_updates old_name_stack new_name_stack =
     (let i = common_prefix_idx old_name_stack new_name_stack
      in (drop i old_name_stack, drop i new_name_stack))"

definition TraceStopOp :: op where
  "TraceStopOp = Operation ''tpu.trace_stop'' [] [] [] []"

definition TraceStartOp :: "string \<Rightarrow> int \<Rightarrow> op" where
  "TraceStartOp message level =
     Operation ''tpu.trace_start'' []
       [(''message'', StringAttr message), (''level'', IntegerAttr (IntegerType 32) level)] [] []"

text \<open>\<open>aval.dtype\<close>; a semaphore's abstract value has no such attribute.\<close>

fun aval_dtype :: "aval \<Rightarrow> exn + dtype" where
  "aval_dtype (ShapedArray _ d) = Inr d"
| "aval_dtype (AbstractRef _ d _) = Inr d"
| "aval_dtype (AbstractSemaphore _) = Inl AttributeError"

text \<open>\<open>_ensure_mlir_value\<close>.\<close>

definition ensure_mlir_value :: "pyval \<Rightarrow> aval \<Rightarrow> pyval lowered" where
  "ensure_mlir_value val a =
     (case val of
        IR v \<Rightarrow> returns (IR v)
      | KeyScalarBundle s vs \<Rightarrow> returns (KeyScalarBundle s vs)
      | Host PyObject \<Rightarrow>
          Inl (RuntimeError ''Unsupported argument to a JAX primitive of type'')
      | Host h \<Rightarrow>
          (case aval_dtype a of
             Inl e \<Rightarrow> Inl e
           | Inr d \<Rightarrow>
               (case dtype_to_ir_type d False of
                  Inl e \<Rightarrow> Inl e
                | Inr t \<Rightarrow> then_do (ir_constant h (Some t)) (\<lambda>v. returns (IR v)))))"

text \<open>
  The state of the loop over the equations: \<open>env\<close>, \<open>block_shape_env\<close> and
  \<open>current_name_stack\<close>.
\<close>

record loop_state =
  env :: "var \<Rightarrow> pyval option"
  block_shape_env :: "var \<Rightarrow> block_shape option option"
  current_name_stack :: "string list"

definition read_env :: "loop_state \<Rightarrow> atom \<Rightarrow> exn + pyval" where
  "read_env st a =
     (case a of
        Literal v _ \<Rightarrow> Inr (Host v)
      | AVar x \<Rightarrow> (case env st x of None \<Rightarrow> Inl KeyError | Some v \<Rightarrow> Inr v))"

definition read_block_shape :: "loop_state \<Rightarrow> atom \<Rightarrow> block_shape option" where
  "read_block_shape st a =
     (case a of
        Literal _ _ \<Rightarrow> None
      | AVar x \<Rightarrow> (case block_shape_env st x of None \<Rightarrow> None | Some bs \<Rightarrow> bs))"

text \<open>\<open>write_env\<close>: the assertion admits IR values and key bundles only.\<close>

definition write_env :: "loop_state \<Rightarrow> var \<Rightarrow> pyval \<Rightarrow> exn + loop_state" where
  "write_env st x val =
     (case val of
        Host _ \<Rightarrow> Inl AssertionError
      | _ \<Rightarrow> Inr (st\<lparr>env := (env st)(x \<mapsto> val)\<rparr>))"

text \<open>
  \<open>map(write_env, vars, vals)\<close> with the length check of \<open>safe_map\<close>, made before
  any call.
\<close>

fun write_envs :: "loop_state \<Rightarrow> var list \<Rightarrow> pyval list \<Rightarrow> exn + loop_state" where
  "write_envs st [] [] = Inr st"
| "write_envs st (x # xs) (v # vs) =
     (case write_env st x v of Inl e \<Rightarrow> Inl e | Inr st' \<Rightarrow> write_envs st' xs vs)"
| "write_envs st _ _ = Inl (ValueError ''safe_map() arguments differ in length'')"

definition safe_write_envs :: "loop_state \<Rightarrow> var list \<Rightarrow> pyval list \<Rightarrow> exn + loop_state" where
  "safe_write_envs st xs vs =
     (if length xs \<noteq> length vs then Inl (ValueError ''safe_map() arguments differ in length'')
      else write_envs st xs vs)"

text \<open>Sequencing of lists of fallible steps, in order.\<close>

fun sequence :: "(exn + 'a) list \<Rightarrow> exn + 'a list" where
  "sequence [] = Inr []"
| "sequence (m # ms) =
     (case m of
        Inl e \<Rightarrow> Inl e
      | Inr x \<Rightarrow> (case sequence ms of Inl e \<Rightarrow> Inl e | Inr xs \<Rightarrow> Inr (x # xs)))"

fun sequence_lowered :: "'a lowered list \<Rightarrow> 'a list lowered" where
  "sequence_lowered [] = Inr ([], [])"
| "sequence_lowered (m # ms) =
     (case m of
        Inl e \<Rightarrow> Inl e
      | Inr (x, ops) \<Rightarrow>
          (case sequence_lowered ms of
             Inl e \<Rightarrow> Inl e
           | Inr (xs, ops') \<Rightarrow> Inr (x # xs, ops @ ops')))"

definition unimplemented_primitive :: "string \<Rightarrow> exn" where
  "unimplemented_primitive name =
     NotImplementedError (''Unimplemented primitive in Pallas TPU lowering: '' @ name @
       ''. Please file an issue on https://github.com/google/jax/issues.'')"

text \<open>
  The \<open>try\<close> around the rule call: a \<open>LoweringException\<close> is re-raised as it is,
  any other exception is wrapped in a new \<open>LoweringException\<close> raised from it.
\<close>

definition wrap_exception :: "exn \<Rightarrow> exn" where
  "wrap_exception e = (case e of LoweringException c \<Rightarrow> LoweringException c | _ \<Rightarrow> LoweringException e)"

text \<open>
  Binding the outputs of an equation: \<open>map(write_env, eqn.outvars, ans)\<close> for a
  primitive with multiple results (iterating over a single value is a TypeError),
  else \<open>write_env(eqn.outvars[0], ans)\<close> (a sequence is no IR value).
\<close>

definition bind_outvars :: "loop_state \<Rightarrow> eqn \<Rightarrow> ans \<Rightarrow> exn + loop_state" where
  "bind_outvars st e a =
     (if multiple_results (eqn_primitive e) then
        (case a of
           Single _ \<Rightarrow> Inl TypeError
         | Multi vs \<Rightarrow> safe_write_envs st (eqn_outvars e) vs)
      else
        (case eqn_outvars e of
           [] \<Rightarrow> Inl IndexError
         | x # _ \<Rightarrow>
             (case a of
                Multi _ \<Rightarrow> Inl AssertionError
              | Single v \<Rightarrow> write_env st x v)))"

text \<open>
  The conversion of the inputs of an equation whose primitive is not in
  \<open>skip_mlir_conversions\<close>, and the rule context built for it.
\<close>

definition convert_invals :: "tables \<Rightarrow> eqn \<Rightarrow> pyval list \<Rightarrow> pyval list lowered" where
  "convert_invals tabs e invals =
     (if eqn_primitive e \<notin> skip_mlir_conversions tabs
      then sequence_lowered
             (map (\<lambda>(x, v). ensure_mlir_value x (atom_aval v)) (zip invals (eqn_invars e)))
      else Inr (invals, []))"

definition make_rule_context :: "LoweringContext \<Rightarrow> eqn \<Rightarrow> loop_state \<Rightarrow> LoweringRuleContext" where
  "make_rule_context ctx e st =
     \<lparr>lowering_context = ctx,
      avals_in = map atom_aval (eqn_invars e),
      avals_out = map var_aval (eqn_outvars e),
      rule_block_shapes = map (read_block_shape st) (eqn_invars e)\<rparr>"

text \<open>One iteration of \<open>for eqn in jaxpr.eqns\<close>.\<close>

definition lower_eqn ::
  "subcomp \<Rightarrow> tables \<Rightarrow> LoweringContext \<Rightarrow> eqn \<Rightarrow> loop_state \<Rightarrow> loop_state fueled" where
  "lower_eqn rec tabs ctx e st =
     (case sequence (map (read_env st) (eqn_invars e)) of
        Inl x \<Rightarrow> Some (Inl x)
      | Inr invals \<Rightarrow>
          (case lowering_rules tabs (eqn_primitive e) of
             None \<Rightarrow> Some (Inl (unimplemented_primitive (primitive_name (eqn_primitive e))))
           | Some rule \<Rightarrow>
               (case convert_invals tabs e invals of
                  Inl x \<Rightarrow> Some (Inl x)
                | Inr (invals', conv_ops) \<Rightarrow>
                    (let rule_context = make_rule_context ctx e st;
                         new_name_stack = name_stack ctx @ eqn_name_stack e;
                         (popped, pushed) =
                           compute_name_stack_updates (current_name_stack st) new_name_stack;
                         st1 = st\<lparr>current_name_stack := new_name_stack\<rparr>;
                         trace_ops = map (\<lambda>_. TraceStopOp) popped @
                                     map (\<lambda>name. TraceStartOp name 10) pushed
                     in case rule rec rule_context invals' (eqn_params e) of
                          None \<Rightarrow> None
                        | Some (Inl x) \<Rightarrow> Some (Inl (wrap_exception x))
                        | Some (Inr (a, rule_ops)) \<Rightarrow>
                            (case bind_outvars st1 e a of
                               Inl x \<Rightarrow> Some (Inl x)
                             | Inr st2 \<Rightarrow> Some (Inr (st2, conv_ops @ trace_ops @ rule_ops)))))))"

fun lower_eqns ::
  "subcomp \<Rightarrow> tables \<Rightarrow> LoweringContext \<Rightarrow> eqn list \<Rightarrow> loop_state \<Rightarrow> loop_state fueled" where
  "lower_eqns rec tabs ctx [] st = Some (Inr (st, []))"
| "lower_eqns rec tabs ctx (e # es) st =
     (case lower_eqn rec tabs ctx e st of
        None \<Rightarrow> None
      | Some (Inl x) \<Rightarrow> Some (Inl x)
      | Some (Inr (st', ops)) \<Rightarrow>
          (case lower_eqns rec tabs ctx es st' of
             None \<Rightarrow> None
           | Some (Inl x) \<Rightarrow> Some (Inl x)
           | Some (Inr (st'', ops')) \<Rightarrow> Some (Inr (st'', ops @ ops'))))"

text \<open>
  The prologue: \<open>block_shape_env\<close> from \<open>zip(jaxpr.invars, ctx.block_shapes)\<close> (the
  checked \<open>safe_zip\<close>), then \<open>map(write_env, jaxpr.invars, args)\<close>.
\<close>

definition initial_state :: "LoweringContext \<Rightarrow> jaxpr \<Rightarrow> pyval list \<Rightarrow> exn + loop_state" where
  "initial_state ctx jaxpr args =
     (if constvars jaxpr \<noteq> [] then Inl AssertionError
      else if length (invars jaxpr) \<noteq> length (block_shapes ctx) then
        Inl (ValueError ''safe_zip() arguments differ in length'')
      else
        safe_write_envs
          \<lparr>env = Map.empty,
           block_shape_env = map_of (zip (invars jaxpr) (block_shapes ctx)),
           current_name_stack = name_stack ctx\<rparr>
          (invars jaxpr) args)"

text \<open>
  The epilogue: drain the name stack back to the initial one, then read the
  outputs, materializing literal outputs with \<open>ir_constant(x)\<close>.
\<close>

definition read_outvar :: "loop_state \<Rightarrow> atom \<Rightarrow> pyval lowered" where
  "read_outvar st a =
     (case a of
        Literal v _ \<Rightarrow> then_do (ir_constant v None) (\<lambda>r. returns (IR r))
      | AVar x \<Rightarrow> (case env st x of None \<Rightarrow> Inl KeyError | Some v \<Rightarrow> returns v))"

definition finish :: "LoweringContext \<Rightarrow> jaxpr \<Rightarrow> loop_state \<Rightarrow> pyval list lowered" where
  "finish ctx jaxpr st =
     (let (popped, pushed) = compute_name_stack_updates (current_name_stack st) (name_stack ctx)
      in if length pushed \<noteq> 0 then Inl AssertionError
         else
           (case sequence (map (read_env st) (outvars jaxpr)) of
              Inl e \<Rightarrow> Inl e
            | Inr _ \<Rightarrow>
                (case sequence_lowered (map (read_outvar st) (outvars jaxpr)) of
                   Inl e \<Rightarrow> Inl e
                 | Inr (outvals, ops) \<Rightarrow> Inr (outvals, map (\<lambda>_. TraceStopOp) popped @ ops))))"

definition jaxpr_subcomp_body ::
  "subcomp \<Rightarrow> tables \<Rightarrow> LoweringContext \<Rightarrow> jaxpr \<Rightarrow> pyval list \<Rightarrow> pyval list fueled" where
  "jaxpr_subcomp_body rec tabs ctx jaxpr args =
     (case initial_state ctx jaxpr args of
        Inl e \<Rightarrow> Some (Inl e)
      | Inr st0 \<Rightarrow>
          (case lower_eqns rec tabs ctx (eqns jaxpr) st0 of
             None \<Rightarrow> None
           | Some (Inl e) \<Rightarrow> Some (Inl e)
           | Some (Inr (st, ops)) \<Rightarrow>
               (case finish ctx jaxpr st of
                  Inl e \<Rightarrow> Some (Inl e)
                | Inr (outvals, ops') \<Rightarrow> Some (Inr (outvals, ops @ ops')))))"

text \<open>
  \<open>jaxpr_subcomp\<close>, with the depth of recursion still allowed as first argument:
  a rule's nested call runs with one less.
\<close>

primrec jaxpr_subcomp ::
  "nat \<Rightarrow> tables \<Rightarrow> LoweringContext \<Rightarrow> jaxpr \<Rightarrow> pyval list \<Rightarrow> pyval list fueled" where
  "jaxpr_subcomp 0 = (\<lambda>tabs ctx jaxpr args. None)"
| "jaxpr_subcomp (Suc n) =
     (\<lambda>tabs ctx jaxpr args. jaxpr_subcomp_body (jaxpr_subcomp n tabs) tabs ctx jaxpr args)"

section \<open>Counting emitted operations\<close>

text \<open>
  The number of operations of a given name in an emitted operation, its regions
  included, and in a list of emitted operations.
\<close>

fun count_op :: "string \<Rightarrow> op \<Rightarrow> nat" where
  "count_op n (Operation m xs as ts rs) =
     (if m = n then 1 else 0) + sum_list (map (\<lambda>r. sum_list (map (count_op n) r)) rs)"

definition count_ops :: "string \<Rightarrow> op list \<Rightarrow> nat" where
  "count_ops n ops = sum_list (map (count_op n) ops)"

definition trace_balanced :: "op list \<Rightarrow> bool" where
  "trace_balanced ops = (count_ops ''tpu.trace_start'' ops = count_ops ''tpu.trace_stop'' ops)"

text \<open>
  What the balance of a dispatcher call needs of a rule: when every nested
  dispatcher call it makes emits balanced markers, so does the rule. No rule of
  the source emits a trace marker itself.
\<close>

definition marker_preserving :: "rule \<Rightarrow> bool" where
  "marker_preserving r =
     (\<forall>rec rctx invals params a ops.
        (\<forall>c j xs outs ops'. rec c j xs = Some (Inr (outs, ops')) \<longrightarrow> trace_balanced ops') \<longrightarrow>
        r rec rctx invals params = Some (Inr (a, ops)) \<longrightarrow> trace_balanced ops)"

section \<open>Rules that only nest or only emit\<close>

text \<open>
  \<open>_pjit_lowering_rule(ctx, *args, jaxpr, **_)\<close>: lowers the closed jaxpr of the
  \<open>jaxpr\<close> parameter by the dispatcher, with the block shapes of the rule
  context. A missing keyword argument is a TypeError, a parameter that is no
  closed jaxpr has no attribute \<open>jaxpr\<close>.
\<close>

definition pjit_lowering_rule :: rule where
  "pjit_lowering_rule rec ctx args params =
     (case map_of params ''jaxpr'' of
        None \<Rightarrow> Some (Inl TypeError)
      | Some (PJaxpr j) \<Rightarrow>
          (case rec ((lowering_context ctx)\<lparr>block_shapes := rule_block_shapes ctx\<rparr>) j args of
             None \<Rightarrow> None
           | Some (Inl e) \<Rightarrow> Some (Inl e)
           | Some (Inr (out, ops)) \<Rightarrow> Some (Inr (Multi out, ops)))
      | Some _ \<Rightarrow> Some (Inl AttributeError))"

text \<open>
  \<open>_delay_rule(ctx, nanos)\<close>: one \<open>tpu.delay\<close> operation; the rule returns the
  operation's (empty) result list.
\<close>

definition delay_rule :: rule where
  "delay_rule rec ctx args params =
     (case args of
        [IR nanos] \<Rightarrow> Some (Inr (Multi [], [Operation ''tpu.delay'' [nanos] [] [] []]))
      | _ \<Rightarrow> Some (Inl TypeError))"

definition pjit_p :: primitive where
  "pjit_p = Primitive ''pjit'' True"

definition delay_p :: primitive where
  "delay_p = Primitive ''delay'' True"

text \<open>The part of the rule table with these two rules; \<open>pjit\<close> is not in the skip set.\<close>

definition small_tables :: tables where
  "small_tables =
     \<lparr>lowering_rules = [pjit_p \<mapsto> pjit_lowering_rule, delay_p \<mapsto> delay_rule],
      skip_mlir_conversions = {}\<rparr>"

text \<open>
  A kernel argument, and a context with one argument without block shape and an
  empty name stack.
\<close>

definition arg0 :: ir_value where
  "arg0 = BlockArgument ''func.func'' [] 0 (IntegerType 32)"

definition ctx0 :: LoweringContext where
  "ctx0 = \<lparr>grid_sizes = [], ctx_mapped_dims = [], block_shapes = [None], name_stack = [],
           for_verification = False\<rparr>"

definition x0 :: var where
  "x0 = Var 0 (ShapedArray [] Int32)"

text \<open>
  \<open>delay x\<close> inside scope \<open>a/b\<close>; and a jaxpr that nests it in a \<open>pjit\<close> equation
  of scope \<open>a\<close> followed by a \<open>delay\<close> of scope \<open>c\<close>.
\<close>

definition inner_jaxpr :: jaxpr where
  "inner_jaxpr = Jaxpr [] [x0] [Eqn delay_p [AVar x0] [] [] [''a'', ''b'']] []"

definition outer_jaxpr :: jaxpr where
  "outer_jaxpr =
     Jaxpr [] [x0]
       [Eqn pjit_p [AVar x0] [] [(''jaxpr'', PJaxpr inner_jaxpr)] [''a''],
        Eqn delay_p [AVar x0] [] [] [''c'']]
       []"

text \<open>What lowering \<open>outer_jaxpr\<close> emits.\<close>

definition outer_ops :: "op list" where
  "outer_ops =
     [TraceStartOp ''a'' 10,
      TraceStartOp ''a'' 10, TraceStartOp ''b'' 10,
      Operation ''tpu.delay'' [arg0] [] [] [],
      TraceStopOp, TraceStopOp,
      TraceStopOp, TraceStartOp ''c'' 10,
      Operation ''tpu.delay'' [arg0] [] [] [],
      TraceStopOp]"

section \<open>Unregistered primitives\<close>

text \<open>The number of \<open>LoweringException\<close>s in the cause chain of an exception.\<close>

fun lowering_exceptions :: "exn \<Rightarrow> nat" where
  "lowering_exceptions (LoweringException c) = Suc (lowering_exceptions c)"
| "lowering_exceptions _ = 0"

text \<open>
  A primitive without a rule in \<open>small_tables\<close>, a jaxpr with one equation of it,
  and this jaxpr nested once and twice in \<open>pjit\<close> equations.
\<close>

definition foo_p :: primitive where
  "foo_p = Primitive ''foo'' False"

definition foo_jaxpr :: jaxpr where
  "foo_jaxpr = Jaxpr [] [x0] [Eqn foo_p [AVar x0] [Var 1 (ShapedArray [] Int32)] [] []] []"

definition nested_foo :: jaxpr where
  "nested_foo = Jaxpr [] [x0] [Eqn pjit_p [AVar x0] [] [(''jaxpr'', PJaxpr foo_jaxpr)] []] []"

definition nested_nested_foo :: jaxpr where
  "nested_nested_foo =
     Jaxpr [] [x0] [Eqn pjit_p [AVar x0] [] [(''jaxpr'', PJaxpr nested_foo)] []] []"

section \<open>Indexing memory references\<close>

text \<open>
  \<open>aval_to_ir_type(aval, shape=None, memory_space=None, is_kernel_boundary=False)\<close>,
  for the abstract values of this model.
\<close>

definition aval_to_ir_type ::
  "aval \<Rightarrow> int list option \<Rightarrow> memory_space option \<Rightarrow> bool \<Rightarrow> exn + ir_type" where
  "aval_to_ir_type a shape ms is_kernel_boundary =
     (case a of
        AbstractSemaphore t \<Rightarrow>
          Inr (MemRefType []
                 (case t of DMA \<Rightarrow> TpuDmaSemaphoreType | REGULAR \<Rightarrow> TpuSemaphoreType
                    | BARRIER \<Rightarrow> TpuSemaphoreType)
                 (memory_space_to_tpu_memspace (Some SEMAPHORE)))
      | AbstractRef s d _ \<Rightarrow>
          (case dtype_to_ir_type d True of
             Inl e \<Rightarrow> Inl e
           | Inr t \<Rightarrow>
               Inr (MemRefType (case shape of None \<Rightarrow> s | Some s' \<Rightarrow> s') t
                      (memory_space_to_tpu_memspace ms)))
      | ShapedArray s d \<Rightarrow>
          (let shape' = (case shape of None \<Rightarrow> s | Some s' \<Rightarrow> s')
           in case dtype_to_ir_type d is_kernel_boundary of
                Inl e \<Rightarrow> Inl e
              | Inr t \<Rightarrow> if shape' = [] then Inr t else Inr (VectorType shape' t)))"

text \<open>
  An index of an \<open>NDIndexer\<close>: a \<open>Slice\<close> (start, size, stride), a Python
  integer, or a scalar IR value. Starts and sizes are Python integers or IR values.
  \<open>indexer_shape\<close> is the result of \<open>get_indexer_shape()\<close>.
\<close>

datatype int_or_value = PI int | PV ir_value

datatype index = Slice int_or_value int_or_value int | IntIndex int | ScalarIndex ir_value

record NDIndexer =
  indices :: "index list"
  indexer_shape :: "int_or_value list"

text \<open>
  A dimension of the block shape of a reference while it is indexed: the
  \<open>mapped\<close> marker or a size, which after a dynamically sized slice is an IR
  value.
\<close>

datatype ref_dim = MappedDim | SizeDim int_or_value

definition ref_dims :: "block_shape \<Rightarrow> ref_dim list" where
  "ref_dims bs = map (\<lambda>b. case b of Mapped \<Rightarrow> MappedDim | Blocked n \<Rightarrow> SizeDim (PI n)) bs"

definition index_map_grid_aval :: aval where
  "index_map_grid_aval = ShapedArray [] Int32"

definition arith_IndexCastOp :: "ir_type \<Rightarrow> ir_value \<Rightarrow> op" where
  "arith_IndexCastOp t v = Operation ''arith.index_cast'' [v] [] [t] []"

text \<open>\<open>_make_index\<close> and \<open>_maybe_cast_to_index\<close>.\<close>

definition make_index :: "int_or_value \<Rightarrow> ir_value lowered" where
  "make_index s =
     (case s of
        PI n \<Rightarrow> ir_constant (PyInt n) (Some IndexType)
      | PV v \<Rightarrow> if value_type v = IndexType then returns v
                else emit (arith_IndexCastOp IndexType v))"

definition maybe_cast_to_index :: "bool \<Rightarrow> int_or_value \<Rightarrow> ir_value lowered" where
  "maybe_cast_to_index cast_to_index x =
     (if cast_to_index then make_index x
      else
        (case x of
           PV v \<Rightarrow> returns v
         | PI n \<Rightarrow>
             (case ensure_mlir_value (Host (PyInt n)) index_map_grid_aval of
                Inl e \<Rightarrow> Inl e
              | Inr (IR v, ops) \<Rightarrow> Inr (v, ops)
              | Inr _ \<Rightarrow> Inl TypeError)))"

text \<open>\<open>_index_to_start_size_stride\<close>: start, size, stride and the squeeze flag.\<close>

definition index_to_start_size_stride ::
  "index \<Rightarrow> bool \<Rightarrow> (ir_value \<times> int_or_value \<times> int \<times> bool) lowered" where
  "index_to_start_size_stride idx cast_to_index =
     (case idx of
        Slice start sz stride \<Rightarrow>
          then_do (maybe_cast_to_index cast_to_index start)
            (\<lambda>s. returns (s, sz, stride, False))
      | IntIndex n \<Rightarrow>
          then_do (maybe_cast_to_index cast_to_index (PI n))
            (\<lambda>s. returns (s, PI 1, 1, True))
      | ScalarIndex v \<Rightarrow>
          then_do (maybe_cast_to_index cast_to_index (PV v))
            (\<lambda>s. returns (s, PI 1, 1, True)))"

text \<open>
  The loop of \<open>_indexer_to_start_size_stride\<close> over the block shape, with the
  unconsumed part of \<open>iter(indexer.indices)\<close>; it returns the tuples and what is
  left of the iterator. \<open>next\<close> on an exhausted iterator raises StopIteration.
\<close>

fun indexer_loop ::
  "ref_dim list \<Rightarrow> index list \<Rightarrow> bool \<Rightarrow>
   ((ir_value \<times> int_or_value \<times> int \<times> bool) list \<times> index list) lowered" where
  "indexer_loop [] it cast_to_index = returns ([], it)"
| "indexer_loop (s # ss) it cast_to_index =
     (case (case s of
              MappedDim \<Rightarrow>
                then_do (maybe_cast_to_index cast_to_index (PI 0))
                  (\<lambda>z. returns ((z, PI 1, 1, True), it))
            | SizeDim _ \<Rightarrow>
                (case it of
                   [] \<Rightarrow> Inl StopIteration
                 | idx # it' \<Rightarrow>
                     then_do (index_to_start_size_stride idx cast_to_index)
                       (\<lambda>t. returns (t, it')))) of
        Inl e \<Rightarrow> Inl e
      | Inr ((t, it''), ops) \<Rightarrow>
          (case indexer_loop ss it'' cast_to_index of
             Inl e \<Rightarrow> Inl e
           | Inr ((ts, rest), ops') \<Rightarrow> Inr ((t # ts, rest), ops @ ops')))"

text \<open>
  \<open>_indexer_to_start_size_stride\<close>: starts, sizes, strides, squeeze flags and the
  new block shape (the sizes of the dimensions that are not squeezed).
\<close>

definition indexer_to_start_size_stride ::
  "NDIndexer \<Rightarrow> ref_dim list \<Rightarrow> bool \<Rightarrow>
   (ir_value list \<times> int_or_value list \<times> int list \<times> bool list \<times> ref_dim list) lowered" where
  "indexer_to_start_size_stride indexer ref_block_shape cast_to_index =
     (case indexer_loop ref_block_shape (indices indexer) cast_to_index of
        Inl e \<Rightarrow> Inl e
      | Inr ((ts, rest), ops) \<Rightarrow>
          if rest \<noteq> [] then Inl AssertionError
          else
            Inr ((map (\<lambda>(start, sz, stride, squeeze). start) ts,
                  map (\<lambda>(start, sz, stride, squeeze). sz) ts,
                  map (\<lambda>(start, sz, stride, squeeze). stride) ts,
                  map (\<lambda>(start, sz, stride, squeeze). squeeze) ts,
                  map (\<lambda>(start, sz, stride, squeeze). SizeDim sz)
                    (filter (\<lambda>(start, sz, stride, squeeze). \<not> squeeze) ts)),
                 ops))"

text \<open>\<open>MLIR_DYNAMIC\<close>, the size MLIR reads as dynamic.\<close>

definition MLIR_DYNAMIC :: int where
  "MLIR_DYNAMIC = - 9223372036854775808"

definition static_size :: "int_or_value \<Rightarrow> int" where
  "static_size s = (case s of PI n \<Rightarrow> n | PV _ \<Rightarrow> MLIR_DYNAMIC)"

definition dynamic_sizes :: "int_or_value list \<Rightarrow> ir_value list" where
  "dynamic_sizes sizes = concat (map (\<lambda>s. case s of PI _ \<Rightarrow> [] | PV v \<Rightarrow> [v]) sizes)"

definition tpu_MemRefSliceOp :: "ir_type \<Rightarrow> ir_value \<Rightarrow> ir_value list \<Rightarrow> ir_value list \<Rightarrow> op" where
  "tpu_MemRefSliceOp t r starts dyn = Operation ''tpu.memref_slice'' (r # starts @ dyn) [] [t] []"

definition tpu_MemRefSqueezeOp :: "ir_type \<Rightarrow> ir_value \<Rightarrow> op" where
  "tpu_MemRefSqueezeOp t r = Operation ''tpu.memref_squeeze'' [r] [] [t] []"

text \<open>\<open>ref.type.memory_space\<close>: only a memref type has the attribute.\<close>

definition type_memory_space :: "ir_type \<Rightarrow> exn + memory_space" where
  "type_memory_space t = (case t of MemRefType _ _ ms \<Rightarrow> Inr ms | _ \<Rightarrow> Inl AttributeError)"

text \<open>
  \<open>_slice_memref(ref, ref_aval, indexer, ref_block_shape)\<close>. The element type of
  the result is \<open>_dtype_to_ir_type(ref_aval.dtype)\<close>, computed without
  \<open>is_kernel_boundary\<close>.
\<close>

definition slice_memref ::
  "ir_value \<Rightarrow> aval \<Rightarrow> NDIndexer \<Rightarrow> ref_dim list option \<Rightarrow> (ir_value \<times> ref_dim list) lowered" where
  "slice_memref r ref_aval indexer ref_block_shape =
     (case ref_block_shape of
        None \<Rightarrow> Inl AssertionError
      | Some bs \<Rightarrow>
          (case indexer_to_start_size_stride indexer bs False of
             Inl e \<Rightarrow> Inl e
           | Inr ((starts, sizes, strides, squeeze_dims, new_bs), ops) \<Rightarrow>
               if \<not> (\<forall>s \<in> set strides. s = 1) then
                 Inl (NotImplementedError ''Strided slices of references are unsupported.'')
               else
                 (case aval_dtype ref_aval of Inl e \<Rightarrow> Inl e | Inr d \<Rightarrow>
                  case dtype_to_ir_type d False of Inl e \<Rightarrow> Inl e | Inr elt \<Rightarrow>
                  case type_memory_space (value_type r) of Inl e \<Rightarrow> Inl e | Inr ms \<Rightarrow>
                    (let target_ref_ty = MemRefType (map static_size sizes) elt ms;
                         slice_op = tpu_MemRefSliceOp target_ref_ty r starts (dynamic_sizes sizes);
                         out = OpResult slice_op 0
                     in if (\<exists>q \<in> set squeeze_dims. q) then
                          (let squeezed_ref_ty =
                                 MemRefType (map static_size (indexer_shape indexer)) elt ms;
                               squeeze_op = tpu_MemRefSqueezeOp squeezed_ref_ty out
                           in Inr ((OpResult squeeze_op 0, new_bs), ops @ [slice_op, squeeze_op]))
                        else Inr ((out, new_bs), ops @ [slice_op])))))"

text \<open>\<open>_index_ref\<close>: the indexers are applied in order.\<close>

fun index_ref ::
  "ir_value \<Rightarrow> aval \<Rightarrow> ref_dim list option \<Rightarrow> NDIndexer list \<Rightarrow>
   (ir_value \<times> ref_dim list option) lowered" where
  "index_ref r ref_aval ref_block_shape [] = returns (r, ref_block_shape)"
| "index_ref r ref_aval ref_block_shape (indexer # indexers) =
     (case slice_memref r ref_aval indexer ref_block_shape of
        Inl e \<Rightarrow> Inl e
      | Inr ((r', bs'), ops) \<Rightarrow>
          (case index_ref r' ref_aval (Some bs') indexers of
             Inl e \<Rightarrow> Inl e
           | Inr (res, ops') \<Rightarrow> Inr (res, ops @ ops')))"

text \<open>
  The full slice indexer of a shape: every dimension sliced from 0 with its whole
  extent and stride 1. And a boolean reference of block shape (8, 128) in VMEM,
  with the type \<open>aval_to_ir_type\<close> gives it.
\<close>

definition full_indexer :: "int list \<Rightarrow> NDIndexer" where
  "full_indexer shape =
     \<lparr>indices = map (\<lambda>n. Slice (PI 0) (PI n) 1) shape, indexer_shape = map PI shape\<rparr>"

definition bool_ref_aval :: aval where
  "bool_ref_aval = AbstractRef [8, 128] Bool (Some VMEM)"

definition bool_ref :: ir_value where
  "bool_ref = BlockArgument ''func.func'' [] 0 (MemRefType [8, 128] (IntegerType 32) VMEM)"

section \<open>Loads, stores and the boolean casts\<close>

definition arith_CmpIOp :: "int \<Rightarrow> ir_value \<Rightarrow> ir_value \<Rightarrow> op" where
  "arith_CmpIOp predicate lhs rhs =
     Operation ''arith.cmpi'' [lhs, rhs]
       [(''predicate'', IntegerAttr (IntegerType 64) predicate)]
       [case value_type lhs of VectorType s _ \<Rightarrow> VectorType s (IntegerType 1) | _ \<Rightarrow> IntegerType 1]
       []"

definition arith_ExtUIOp :: "ir_type \<Rightarrow> ir_value \<Rightarrow> op" where
  "arith_ExtUIOp t v = Operation ''arith.extui'' [v] [] [t] []"







definition vector_ShapeCastOp :: "ir_type \<Rightarrow> ir_value \<Rightarrow> op" where
  "vector_ShapeCastOp t v = Operation ''vector.shape_cast'' [v] [] [t] []"


text \<open>\<open>_cmpi_lowering_types[lax.ne_p]\<close>.\<close>

definition cmpi_ne :: int where
  "cmpi_ne = 1"



section \<open>Runtime values of the target IR\<close>

text \<open>
  A runtime value: an integer of a given width, held as its unsigned value; a
  float; or a vector with its shape and its elements in row-major order.
\<close>

datatype rt = RInt nat int | RFloat real | RVec "int list" "rt list"

text \<open>The value of the attribute of an \<open>arith.constant\<close> of a given type.\<close>

fun scalar_const :: "ir_type \<Rightarrow> attr \<Rightarrow> rt option" where
  "scalar_const (IntegerType w) (IntegerAttr _ n) = Some (RInt w (n mod 2 ^ w))"
| "scalar_const IndexType (IntegerAttr _ n) = Some (RInt 64 (n mod 2 ^ 64))"
| "scalar_const (IntegerType w) (BoolAttr b) = Some (RInt w (if b then 1 else 0))"
| "scalar_const _ (FloatAttr _ r) = Some (RFloat r)"
| "scalar_const _ _ = None"

definition num_elements :: "int list \<Rightarrow> nat" where
  "num_elements shape = nat (prod_list shape)"

fun constant_value :: "ir_type \<Rightarrow> attr \<Rightarrow> rt option" where
  "constant_value (VectorType shape elt) (DenseSplatAttr _ a) =
     (case scalar_const elt a of
        None \<Rightarrow> None
      | Some x \<Rightarrow> Some (RVec shape (replicate (num_elements shape) x)))"
| "constant_value t a = scalar_const t a"

text \<open>
  \<open>arith.extui\<close> to an integer type of width \<open>w\<close>: the unsigned value is kept;
  element by element on a vector.
\<close>

fun is_integer :: "rt \<Rightarrow> bool" where
  "is_integer (RInt _ _) = True"
| "is_integer _ = False"

fun extui :: "nat \<Rightarrow> rt \<Rightarrow> rt option" where
  "extui w (RInt _ v) = Some (RInt w v)"
| "extui w (RVec shape xs) =
     (if list_all is_integer xs
      then Some (RVec shape (map (\<lambda>x. case x of RInt _ v \<Rightarrow> RInt w v | y \<Rightarrow> y) xs))
      else None)"
| "extui w (RFloat _) = None"

text \<open>\<open>arith.cmpi\<close> with predicate 0 (eq) or 1 (ne); element by element on vectors.\<close>

fun cmpi_scalar :: "int \<Rightarrow> rt \<Rightarrow> rt \<Rightarrow> rt option" where
  "cmpi_scalar p (RInt w a) (RInt w' b) =
     (if w \<noteq> w' then None
      else if p = 0 then Some (RInt 1 (if a = b then 1 else 0))
      else if p = 1 then Some (RInt 1 (if a \<noteq> b then 1 else 0))
      else None)"
| "cmpi_scalar _ _ _ = None"

fun those_list :: "'a option list \<Rightarrow> 'a list option" where
  "those_list [] = Some []"
| "those_list (x # xs) =
     (case x of None \<Rightarrow> None
      | Some y \<Rightarrow> (case those_list xs of None \<Rightarrow> None | Some ys \<Rightarrow> Some (y # ys)))"

fun cmpi :: "int \<Rightarrow> rt \<Rightarrow> rt \<Rightarrow> rt option" where
  "cmpi p (RVec shape xs) (RVec shape' ys) =
     (if shape \<noteq> shape' \<or> length xs \<noteq> length ys then None
      else (case those_list (map (\<lambda>(x, y). cmpi_scalar p x y) (zip xs ys)) of
              None \<Rightarrow> None
            | Some zs \<Rightarrow> Some (RVec shape zs)))"
| "cmpi p x y = cmpi_scalar p x y"

text \<open>\<open>arith.subi\<close> on scalars: the difference modulo two to the width.\<close>

fun subi :: "rt \<Rightarrow> rt \<Rightarrow> rt option" where
  "subi (RInt w a) (RInt w' b) = (if w = w' then Some (RInt w ((a - b) mod 2 ^ w)) else None)"
| "subi _ _ = None"

text \<open>\<open>vector.shape_cast\<close>: the elements under a new shape with as many elements.\<close>

fun shape_cast :: "int list \<Rightarrow> rt \<Rightarrow> rt option" where
  "shape_cast shape (RVec _ xs) =
     (if num_elements shape = length xs then Some (RVec shape xs) else None)"
| "shape_cast shape _ = None"

definition type_width :: "ir_type \<Rightarrow> nat option" where
  "type_width t =
     (case t of
        IntegerType w \<Rightarrow> Some w
      | VectorType _ (IntegerType w) \<Rightarrow> Some w
      | _ \<Rightarrow> None)"

text \<open>
  The runtime value of an IR value, given the values of block arguments and of
  the results of operations with effects (the loads), which execution binds.
  Constants, \<open>arith.extui\<close>, \<open>arith.cmpi\<close>, \<open>arith.subi\<close> and
  \<open>vector.shape_cast\<close> are computed from their operands.
\<close>

fun eval_value :: "(ir_value \<Rightarrow> rt option) \<Rightarrow> ir_value \<Rightarrow> rt option" where
  "eval_value bound (BlockArgument n xs k t) = bound (BlockArgument n xs k t)"
| "eval_value bound (OpResult (Operation n xs as ts rs) k) =
     (if n = ''arith.constant'' then
        (case (ts, map_of as ''value'') of
           ([t], Some a) \<Rightarrow> constant_value t a
         | _ \<Rightarrow> None)
      else if n = ''arith.extui'' then
        (case (xs, ts) of
           ([x], [t]) \<Rightarrow>
             (case (eval_value bound x, type_width t) of
                (Some v, Some w) \<Rightarrow> extui w v
              | _ \<Rightarrow> None)
         | _ \<Rightarrow> None)
      else if n = ''arith.cmpi'' then
        (case (xs, map_of as ''predicate'') of
           ([x, y], Some (IntegerAttr _ p)) \<Rightarrow>
             (case (eval_value bound x, eval_value bound y) of
                (Some a, Some b) \<Rightarrow> cmpi p a b
              | _ \<Rightarrow> None)
         | _ \<Rightarrow> None)
      else if n = ''arith.subi'' then
        (case xs of
           [x, y] \<Rightarrow>
             (case (eval_value bound x, eval_value bound y) of
                (Some a, Some b) \<Rightarrow> subi a b
              | _ \<Rightarrow> None)
         | _ \<Rightarrow> None)
      else if n = ''vector.shape_cast'' then
        (case (xs, ts) of
           ([x], [VectorType shape _]) \<Rightarrow>
             (case eval_value bound x of Some v \<Rightarrow> shape_cast shape v | None \<Rightarrow> None)
         | _ \<Rightarrow> None)
      else bound (OpResult (Operation n xs as ts rs) k))"





section \<open>The swap rule\<close>














section \<open>The load rule\<close>







section \<open>Executing loads and stores\<close>



definition is_load :: "string \<Rightarrow> bool" where
  "is_load n = (n \<in> {''memref.load'', ''vector.load'', ''tpu.strided_load''})"

definition is_store :: "string \<Rightarrow> bool" where
  "is_store n = (n \<in> {''memref.store'', ''vector.store'', ''tpu.strided_store''})"




text \<open>Operations without effects on the machine state: neither loads nor stores.\<close>

definition no_effects :: "op list \<Rightarrow> bool" where
  "no_effects ops = (\<forall>o1 \<in> set ops. \<not> is_load (op_name o1) \<and> \<not> is_store (op_name o1))"















section \<open>The conditional rule\<close>

definition arith_SubIOp :: "ir_value \<Rightarrow> ir_value \<Rightarrow> op" where
  "arith_SubIOp lhs rhs = Operation ''arith.subi'' [lhs, rhs] [] [value_type lhs] []"

definition scf_YieldOp :: "ir_value list \<Rightarrow> op" where
  "scf_YieldOp vs = Operation ''scf.yield'' vs [] [] []"

text \<open>\<open>scf.IfOp(pred, out_types, hasElse=True)\<close> with the contents of its two blocks.\<close>

definition scf_IfOp :: "ir_value \<Rightarrow> ir_type list \<Rightarrow> op list \<Rightarrow> op list \<Rightarrow> op" where
  "scf_IfOp pred ts then_block else_block =
     Operation ''scf.if'' [pred] [] ts [then_block, else_block]"

text \<open>\<open>op.results\<close>.\<close>

definition op_results :: "op \<Rightarrow> ir_value list" where
  "op_results o1 = map (OpResult o1) [0..<length (op_result_types o1)]"

text \<open>The operands of a yield are IR values; anything else is refused (TypeError).\<close>

fun yield_operands :: "pyval list \<Rightarrow> exn + ir_value list" where
  "yield_operands [] = Inr []"
| "yield_operands (IR v # vs) =
     (case yield_operands vs of Inl e \<Rightarrow> Inl e | Inr r \<Rightarrow> Inr (v # r))"
| "yield_operands (_ # vs) = Inl TypeError"

text \<open>
  A block that lowers one branch by the dispatcher and yields what it returns:
  the yielded values and the operations of the block.
\<close>

definition cond_branch ::
  "subcomp \<Rightarrow> LoweringContext \<Rightarrow> jaxpr \<Rightarrow> pyval list \<Rightarrow> ir_value list fueled" where
  "cond_branch rec lctx branch args =
     (case rec lctx branch args of
        None \<Rightarrow> None
      | Some (Inl e) \<Rightarrow> Some (Inl e)
      | Some (Inr (out, ops)) \<Rightarrow>
          (case yield_operands out of
             Inl e \<Rightarrow> Some (Inl e)
           | Inr vs \<Rightarrow> Some (Inr (vs, ops @ [scf_YieldOp vs]))))"

text \<open>
  \<open>_cond_lowering_rule\<close> after \<open>index, *args = args\<close>, for an index that is an IR
  value. The operations created inside \<open>with ir.InsertionPoint(...)\<close> are the
  contents of the blocks of the \<open>scf.if\<close>; \<open>branches[1]\<close> of a shorter tuple is
  an IndexError.
\<close>

function cond_cascade ::
  "subcomp \<Rightarrow> LoweringRuleContext \<Rightarrow> ir_value \<Rightarrow> pyval list \<Rightarrow> jaxpr list \<Rightarrow>
   ir_value list fueled" where
  "cond_cascade rec ctx index args branches =
     (case sequence (map (\<lambda>a. aval_to_ir_type a None None False) (avals_out ctx)) of
        Inl e \<Rightarrow> Some (Inl e)
      | Inr out_types \<Rightarrow>
          (case ir_constant (PyInt 0) (Some (value_type index)) of
             Inl e \<Rightarrow> Some (Inl e)
           | Inr (zero, zero_ops) \<Rightarrow>
               (let cmp = arith_CmpIOp cmpi_ne index zero;
                    lctx = (lowering_context ctx)\<lparr>block_shapes := drop 1 (rule_block_shapes ctx)\<rparr>
                in case (if length branches > 2 then
                           (case ir_constant (PyInt 1) (Some (value_type index)) of
                              Inl e \<Rightarrow> Some (Inl e)
                            | Inr (one, one_ops) \<Rightarrow>
                                (case cond_cascade rec ctx (OpResult (arith_SubIOp index one) 0)
                                        args (tl branches) of
                                   None \<Rightarrow> None
                                 | Some (Inl e) \<Rightarrow> Some (Inl e)
                                 | Some (Inr (out, ops)) \<Rightarrow>
                                     Some (Inr (out, one_ops @ [arith_SubIOp index one] @ ops @
                                                     [scf_YieldOp out]))))
                         else
                           (case branches of
                              _ # b1 # _ \<Rightarrow> cond_branch rec lctx b1 args
                            | _ \<Rightarrow> Some (Inl IndexError))) of
                     None \<Rightarrow> None
                   | Some (Inl e) \<Rightarrow> Some (Inl e)
                   | Some (Inr (_, then_ops)) \<Rightarrow>
                       (case cond_branch rec lctx (hd branches) args of
                          None \<Rightarrow> None
                        | Some (Inl e) \<Rightarrow> Some (Inl e)
                        | Some (Inr (_, else_ops)) \<Rightarrow>
                            (let if_op = scf_IfOp (OpResult cmp 0) out_types then_ops else_ops
                             in Some (Inr (op_results if_op, zero_ops @ [cmp, if_op])))))))"
  by pat_completeness auto

termination cond_cascade
  by (relation "measure (\<lambda>(rec, ctx, index, args, branches). length branches)") auto

text \<open>
  The rule as the dispatcher calls it: the tuple of branches is the \<open>branches\<close>
  parameter. Without arguments the unpacking fails (ValueError); an index that is
  no IR value has no \<open>type\<close> (AttributeError), after the output types are
  computed.
\<close>

definition cond_lowering_rule :: rule where
  "cond_lowering_rule rec ctx args params =
     (case map_of params ''branches'' of
        None \<Rightarrow> Some (Inl TypeError)
      | Some (PJaxprs branches) \<Rightarrow>
          (case args of
             [] \<Rightarrow> Some (Inl (ValueError ''not enough values to unpack''))
           | IR index # rest \<Rightarrow>
               (case cond_cascade rec ctx index rest branches of
                  None \<Rightarrow> None
                | Some (Inl e) \<Rightarrow> Some (Inl e)
                | Some (Inr (out, ops)) \<Rightarrow> Some (Inr (Multi (map IR out), ops)))
           | _ # rest \<Rightarrow>
               (case sequence (map (\<lambda>a. aval_to_ir_type a None None False) (avals_out ctx)) of
                  Inl e \<Rightarrow> Some (Inl e)
                | Inr _ \<Rightarrow> Some (Inl AttributeError)))
      | Some _ \<Rightarrow> Some (Inl TypeError))"

section \<open>Which operations of structured code run\<close>

text \<open>
  The operations that run when a list of operations is executed, in order: an
  \<open>scf.if\<close> runs its first block when its condition is not zero, else its
  second; any other operation runs itself. Without a value for a condition
  there is no run.
\<close>

function executed :: "(ir_value \<Rightarrow> rt option) \<Rightarrow> op list \<Rightarrow> op list option" where
  "executed bound [] = Some []"
| "executed bound (Operation n xs as ts rs # rest) =
     (case (if n = ''scf.if'' then
              (case (xs, rs) of
                 ([p], [then_block, else_block]) \<Rightarrow>
                   (case eval_value bound p of
                      Some (RInt _ c) \<Rightarrow>
                        if c \<noteq> 0 then executed bound then_block else executed bound else_block
                    | _ \<Rightarrow> None)
               | _ \<Rightarrow> None)
            else Some [Operation n xs as ts rs]) of
        None \<Rightarrow> None
      | Some tr \<Rightarrow>
          (case executed bound rest of None \<Rightarrow> None | Some tr' \<Rightarrow> Some (tr @ tr')))"
  by pat_completeness auto

termination executed
  by (relation "measure (\<lambda>(bound, ops). size_list size ops)") auto

text \<open>The index arithmetic of the cascade, and the yields that end blocks.\<close>

definition index_arithmetic :: "op list \<Rightarrow> bool" where
  "index_arithmetic ops =
     list_all (\<lambda>o1. op_name o1 \<in> {''arith.constant'', ''arith.cmpi'', ''arith.subi''}) ops"

definition yields :: "op list \<Rightarrow> bool" where
  "yields ops = list_all (\<lambda>o1. op_name o1 = ''scf.yield'') ops"

section \<open>Properties of the dimension semantics\<close>

lemma semantics_gen_length:
  "semantics_gen i n md it = Inr r \<Longrightarrow> length r = n"
  by (induction i n md it arbitrary: r rule: semantics_gen.induct)
     (auto split: if_splits list.splits sum.splits)

lemma semantics_gen_parallel:
  "semantics_gen i n md it = Inr r \<Longrightarrow> k < n \<Longrightarrow> i + int k \<in> set md \<Longrightarrow> r ! k = Some ''parallel''"
proof (induction i n md it arbitrary: r k rule: semantics_gen.induct)
  case (1 i md it)
  then show ?case by simp
next
  case (2 i n md it)
  show ?case
  proof (cases k)
    case 0
    with 2(3,4,5) show ?thesis by (auto split: if_splits list.splits sum.splits)
  next
    case (Suc k')
    with 2 show ?thesis
      by (auto split: if_splits list.splits sum.splits simp: algebra_simps)
  qed
qed

lemma semantics_gen_arbitrary:
  "semantics_gen i n md (replicate m (Some ''arbitrary'')) = Inr r \<Longrightarrow> k < n \<Longrightarrow>
   i + int k \<notin> set md \<Longrightarrow> r ! k = Some ''arbitrary''"
proof (induction n arbitrary: i m r k)
  case 0
  then show ?case by simp
next
  case (Suc n)
  note IH = Suc.IH and prems = Suc.prems
  show ?case
  proof (cases "i \<in> set md")
    case True
    with prems obtain r' where r': "semantics_gen (i + 1) n md (replicate m (Some ''arbitrary'')) = Inr r'"
      and r: "r = Some ''parallel'' # r'"
      by (auto split: sum.splits)
    from True prems(3) obtain k' where k: "k = Suc k'" by (cases k) auto
    with IH[OF r', of k'] prems r show ?thesis by (simp add: algebra_simps)
  next
    case False
    with prems obtain m' r' where m: "m = Suc m'"
      and r': "semantics_gen (i + 1) n md (replicate m' (Some ''arbitrary'')) = Inr r'"
      and r: "r = Some ''arbitrary'' # r'"
      by (cases m) (auto split: sum.splits)
    show ?thesis
    proof (cases k)
      case 0
      with r show ?thesis by simp
    next
      case (Suc k')
      with IH[OF r', of k'] prems r show ?thesis by (simp add: algebra_simps)
    qed
  qed
qed

text \<open>
  C10. In every constructed grid mapping the dimension-semantics attribute has one
  entry per grid dimension, the entry of every vmapped (synthetic) dimension is
  "parallel" whatever the user supplied, and when the user supplied no dimension
  semantics the entry of every other dimension is "arbitrary"; construction fails
  with the \<open>ValueError\<close> of the source when the user tuple's length differs from
  the number of non-vmapped grid dimensions.
\<close>

theorem dimension_semantics_assignment:
  "(\<forall>sem. MosaicGridMapping_init grid mapped_dims ds = Inr sem \<longrightarrow>
      length (get_dimension_semantics sem) = length grid \<and>
      (\<forall>i<length grid. int i \<in> set mapped_dims \<longrightarrow>
         get_dimension_semantics sem ! i = ''#tpu.dimension_semantics<parallel>'') \<and>
      (ds = None \<longrightarrow> (\<forall>i<length grid. int i \<notin> set mapped_dims \<longrightarrow>
         get_dimension_semantics sem ! i = ''#tpu.dimension_semantics<arbitrary>''))) \<and>
   (\<forall>d. ds = Some d \<and> length d \<noteq> length (user_grid grid mapped_dims) \<longrightarrow>
      MosaicGridMapping_init grid mapped_dims ds =
        Inl (ValueError ''Must have dimension semantics for each dimension of the grid.''))"
proof (intro conjI allI)
  fix sem
  show "MosaicGridMapping_init grid mapped_dims ds = Inr sem \<longrightarrow>
      length (get_dimension_semantics sem) = length grid \<and>
      (\<forall>i<length grid. int i \<in> set mapped_dims \<longrightarrow>
         get_dimension_semantics sem ! i = ''#tpu.dimension_semantics<parallel>'') \<and>
      (ds = None \<longrightarrow> (\<forall>i<length grid. int i \<notin> set mapped_dims \<longrightarrow>
         get_dimension_semantics sem ! i = ''#tpu.dimension_semantics<arbitrary>''))"
  proof (intro impI conjI)
  assume ok: "MosaicGridMapping_init grid mapped_dims ds = Inr sem"
  define d where "d = (case ds of None \<Rightarrow> replicate (length (user_grid grid mapped_dims)) (Some ''arbitrary'') | Some d \<Rightarrow> d)"
  from ok have gen: "semantics_gen 0 (length grid) mapped_dims d = Inr sem"
    by (simp add: MosaicGridMapping_init_def Let_def d_def split: if_splits)
  from semantics_gen_length[OF gen] have len: "length sem = length grid" .
  from len show "length (get_dimension_semantics sem) = length grid"
    by (simp add: get_dimension_semantics_def)
  show "\<forall>i<length grid. int i \<in> set mapped_dims \<longrightarrow>
         get_dimension_semantics sem ! i = ''#tpu.dimension_semantics<parallel>''"
    using semantics_gen_parallel[OF gen] len
    by (simp add: get_dimension_semantics_def get_semantics_def)
  assume "ds = None"
  then show "\<forall>i<length grid. int i \<notin> set mapped_dims \<longrightarrow>
         get_dimension_semantics sem ! i = ''#tpu.dimension_semantics<arbitrary>''"
    using semantics_gen_arbitrary[of 0 "length grid" mapped_dims "length (user_grid grid mapped_dims)" sem] gen len
    by (simp add: get_dimension_semantics_def get_semantics_def d_def)
  qed
next
  fix d
  show "ds = Some d \<and> length d \<noteq> length (user_grid grid mapped_dims) \<longrightarrow>
      MosaicGridMapping_init grid mapped_dims ds =
        Inl (ValueError ''Must have dimension semantics for each dimension of the grid.'')"
    by (auto simp: MosaicGridMapping_init_def Let_def)
qed

theorem dimension_semantics_assignment_witness:
  "MosaicGridMapping_init [8, 4, 2 :: int] [1] None =
     Inr [Some ''arbitrary'', Some ''parallel'', Some ''arbitrary''] \<and>
   get_dimension_semantics [Some ''arbitrary'', Some ''parallel'', Some ''arbitrary''] ! 1 =
     ''#tpu.dimension_semantics<parallel>'' \<and>
   get_dimension_semantics [Some ''arbitrary'', Some ''parallel'', Some ''arbitrary''] ! 2 =
     ''#tpu.dimension_semantics<arbitrary>'' \<and>
   MosaicGridMapping_init [8, 4, 2 :: int] [1] (Some [Some ''parallel'']) =
     Inl (ValueError ''Must have dimension semantics for each dimension of the grid.'')"
proof -
  have ok: "MosaicGridMapping_init [8, 4, 2 :: int] [1] None =
     Inr [Some ''arbitrary'', Some ''parallel'', Some ''arbitrary'']"
    by (simp add: MosaicGridMapping_init_def user_grid_def Let_def)
  have len: "length [Some ''parallel''] \<noteq> length (user_grid [8, 4, 2 :: int] [1])"
    by (simp add: user_grid_def)
  from dimension_semantics_assignment [of "[8, 4, 2 :: int]" "[1]" None] ok
  have a: "get_dimension_semantics [Some ''arbitrary'', Some ''parallel'', Some ''arbitrary''] ! 1 =
     ''#tpu.dimension_semantics<parallel>''"
    and b: "get_dimension_semantics [Some ''arbitrary'', Some ''parallel'', Some ''arbitrary''] ! 2 =
     ''#tpu.dimension_semantics<arbitrary>''"
    by simp_all
  from dimension_semantics_assignment [of "[8, 4, 2 :: int]" "[1]" "Some [Some ''parallel'']"] len
  have c: "MosaicGridMapping_init [8, 4, 2 :: int] [1] (Some [Some ''parallel'']) =
     Inl (ValueError ''Must have dimension semantics for each dimension of the grid.'')"
    by simp
  from ok a b c show ?thesis by simp
qed

section \<open>Properties of the block-shape validation\<close>

lemma from_end_1: "from_end xs 1 = Inr x \<Longrightarrow> xs \<noteq> [] \<and> x = last xs"
  by (cases xs rule: rev_cases) (auto simp: from_end_def split: if_splits)

lemma from_end_2: "from_end xs 2 = Inr x \<Longrightarrow> 2 \<le> length xs \<and> x = xs ! (length xs - 2)"
  by (auto simp: from_end_def split: if_splits)

lemma rank1_divisible_True:
  "rank1_divisible bs0 as0 w = Inr True \<Longrightarrow> bs0 = as0 \<or> 128 * (32 div w) dvd bs0"
  by (auto simp: rank1_divisible_def py_floordiv_def py_mod_def Let_def mod_eq_0_iff_dvd
      split: if_splits sum.splits)

lemma check_block_mapping_sound:
  assumes ok: "check_block_mapping fc old bm = Inr ()"
    and ne: "\<not> (bm_memory_space bm = Some SMEM \<and> has_trivial_window bm)"
  shows "1 \<le> length (block_shape bm) \<and> array_shape bm \<noteq> [] \<and>
     (unmapped (last (block_shape bm)) = last (array_shape bm) \<or>
        (if length (block_shape bm) = 1
         then 128 * (32 div array_bit_width bm) dvd unmapped (last (block_shape bm))
         else 128 dvd unmapped (last (block_shape bm)))) \<and>
     (2 \<le> length (block_shape bm) \<longrightarrow>
        2 \<le> length (array_shape bm) \<and>
        (unmapped (block_shape bm ! (length (block_shape bm) - 2)) =
          array_shape bm ! (length (array_shape bm) - 2) \<or>
        8 dvd unmapped (block_shape bm ! (length (block_shape bm) - 2))))"
proof -
  let ?bs = "map unmapped (block_shape bm)"
  let ?rank = "length (block_shape bm)"
  from ok ne have "block_shape bm \<noteq> []"
    by (auto simp: check_block_mapping_def Let_def split: if_splits)
  then have r1: "1 \<le> ?rank" by (simp add: Suc_le_eq)
  from ok ne obtain bs0 as0 where b0: "from_end ?bs 1 = Inr bs0" and a0: "from_end (array_shape bm) 1 = Inr as0"
    by (auto simp: check_block_mapping_def Let_def split: if_splits sum.splits)
  from from_end_1[OF b0] have bs0: "bs0 = unmapped (last (block_shape bm))"
    by (simp add: last_map)
  from from_end_1[OF a0] have as0: "as0 = last (array_shape bm)" and ane: "array_shape bm \<noteq> []"
    by simp_all
  show ?thesis
  proof (cases "2 \<le> ?rank")
    case True
    with ok ne b0 a0 obtain bs1 as1 where b1: "from_end ?bs 2 = Inr bs1"
      and a1: "from_end (array_shape bm) 2 = Inr as1"
      by (auto simp: check_block_mapping_def Let_def split: if_splits sum.splits)
    from from_end_2[OF b1] True have bs1: "bs1 = unmapped (block_shape bm ! (?rank - 2))"
      by simp
    from from_end_2[OF a1] have as1: "as1 = array_shape bm ! (length (array_shape bm) - 2)"
      and al: "2 \<le> length (array_shape bm)" by simp_all
    from ok ne b0 a0 b1 a1 True have "(bs0 = as0 \<or> bs0 mod 128 = 0) \<and> (bs1 = as1 \<or> bs1 mod 8 = 0)"
      by (auto simp: check_block_mapping_def Let_def split: if_splits)
    with True r1 ane al show ?thesis
      unfolding bs0 as0 bs1 as1 by (auto simp: mod_eq_0_iff_dvd)
  next
    case False
    with r1 have one: "?rank = 1" by simp
    with ok ne b0 a0 have "rank1_divisible bs0 as0 (array_bit_width bm) = Inr True"
      by (auto simp: check_block_mapping_def Let_def split: if_splits sum.splits)
    from rank1_divisible_True[OF this] one ane show ?thesis
      unfolding bs0 as0 by auto
  qed
qed

lemma check_block_mappings_all:
  "check_block_mappings fc old bms = Inr () \<Longrightarrow> bm \<in> set bms \<Longrightarrow>
   check_block_mapping fc old bm = Inr ()"
  by (induction bms) (auto split: sum.splits)

lemma bm_256_256_passes:
  "ms \<noteq> Some ANY \<Longrightarrow> check_block_mapping fc old (bm_256_256 ms w) = Inr ()"
  by (simp add: check_block_mapping_def bm_256_256_def from_end_def unmapped_def Let_def)

lemma bm_256_100_fails:
  "\<exists>msg. check_block_mapping fc old (bm_256_100 ms w) = Inl (ValueError msg)"
  by (simp add: check_block_mapping_def bm_256_100_def from_end_def unmapped_def Let_def)

text \<open>
  C3. When the validation loop of \<open>lower_jaxpr_to_module\<close> raises nothing, every
  block mapping that is not exempt (exempt: SMEM with a trivial window) has rank at
  least 1, the block size of its last dimension equals the array's last dimension or
  is a multiple of 128 (for rank 1: of \<open>128 * (32 // bit_width)\<close>), and for rank
  at least 2 the block size of its second-to-last dimension equals the array
  dimension or is a multiple of 8. Array shape (256, 256) with block shape
  (128, 128) passes (outside memory space ANY, which admits trivial windows only);
  array shape (256, 100) with block shape (128, 50) fails with a \<open>ValueError\<close>.
  The messages of the model are the source's without the appended
  \<open>err_details()\<close>.
\<close>

theorem block_shape_legality:
  "(check_block_mappings fc old bms = Inr () \<longrightarrow>
     (\<forall>bm \<in> set bms. \<not> (bm_memory_space bm = Some SMEM \<and> has_trivial_window bm) \<longrightarrow>
        1 \<le> length (block_shape bm) \<and> array_shape bm \<noteq> [] \<and>
        (unmapped (last (block_shape bm)) = last (array_shape bm) \<or>
           (if length (block_shape bm) = 1
            then 128 * (32 div array_bit_width bm) dvd unmapped (last (block_shape bm))
            else 128 dvd unmapped (last (block_shape bm)))) \<and>
        (2 \<le> length (block_shape bm) \<longrightarrow>
           2 \<le> length (array_shape bm) \<and>
           (unmapped (block_shape bm ! (length (block_shape bm) - 2)) =
              array_shape bm ! (length (array_shape bm) - 2) \<or>
            8 dvd unmapped (block_shape bm ! (length (block_shape bm) - 2)))))) \<and>
   (ms \<noteq> Some ANY \<longrightarrow> check_block_mappings fc old [bm_256_256 ms w] = Inr ()) \<and>
   (\<exists>msg. check_block_mappings fc old [bm_256_100 ms w] = Inl (ValueError msg))"
proof (intro conjI impI ballI)
  fix bm
  assume "check_block_mappings fc old bms = Inr ()" and "bm \<in> set bms"
  then have ok: "check_block_mapping fc old bm = Inr ()"
    by (rule check_block_mappings_all)
  assume ne: "\<not> (bm_memory_space bm = Some SMEM \<and> has_trivial_window bm)"
  from check_block_mapping_sound[OF ok ne]
  show "1 \<le> length (block_shape bm)" and "array_shape bm \<noteq> []"
    and "unmapped (last (block_shape bm)) = last (array_shape bm) \<or>
           (if length (block_shape bm) = 1
            then 128 * (32 div array_bit_width bm) dvd unmapped (last (block_shape bm))
            else 128 dvd unmapped (last (block_shape bm)))"
    by blast+
  assume "2 \<le> length (block_shape bm)"
  with check_block_mapping_sound[OF ok ne]
  show "2 \<le> length (array_shape bm)"
    and "unmapped (block_shape bm ! (length (block_shape bm) - 2)) =
              array_shape bm ! (length (array_shape bm) - 2) \<or>
            8 dvd unmapped (block_shape bm ! (length (block_shape bm) - 2))"
    by blast+
next
  assume "ms \<noteq> Some ANY"
  then show "check_block_mappings fc old [bm_256_256 ms w] = Inr ()"
    by (simp add: bm_256_256_passes)
next
  from bm_256_100_fails[of fc old ms w]
  show "\<exists>msg. check_block_mappings fc old [bm_256_100 ms w] = Inl (ValueError msg)"
    by auto
qed

theorem block_shape_legality_witness:
  "check_block_mappings False False [bm_256_256 (Some VMEM) 32] = Inr () \<and>
   128 dvd unmapped (last (block_shape (bm_256_256 (Some VMEM) 32))) \<and>
   8 dvd unmapped (block_shape (bm_256_256 (Some VMEM) 32) ! 0) \<and>
   check_block_mappings False False [bm_256_100 (Some VMEM) 32] = Inl (ValueError divisible_error)"
proof -
  have ms: "Some VMEM \<noteq> Some ANY" by simp
  from block_shape_legality [of False False "[bm_256_256 (Some VMEM) 32]" "Some VMEM" 32] ms
  have ok: "check_block_mappings False False [bm_256_256 (Some VMEM) 32] = Inr ()"
    by blast
  with block_shape_legality [of False False "[bm_256_256 (Some VMEM) 32]" "Some VMEM" 32]
  have "128 dvd unmapped (last (block_shape (bm_256_256 (Some VMEM) 32)))"
    and "8 dvd unmapped (block_shape (bm_256_256 (Some VMEM) 32) ! 0)"
    by (simp_all add: bm_256_256_def unmapped_def)
  moreover have "check_block_mappings False False [bm_256_100 (Some VMEM) 32] =
      Inl (ValueError divisible_error)"
    by (simp add: check_block_mapping_def bm_256_100_def from_end_def unmapped_def Let_def)
  ultimately show ?thesis using ok by simp
qed

section \<open>Properties of the constant materializer\<close>

lemma ir_constant_py_int:
  "- (2 ^ 31) \<le> n \<Longrightarrow> n < 2 ^ 31 \<Longrightarrow>
   ir_constant (PyInt n) None =
     Inr (OpResult (arith_ConstantOp (IntegerType 32) (IntegerAttr (IntegerType 32) n)) 0,
          [arith_ConstantOp (IntegerType 32) (IntegerAttr (IntegerType 32) n)])"
  by (simp add: ir_constant_def np_array_int32_def dtype_to_ir_type_def numeric_ir_type_def
      emit_def py_int_def)

lemma ir_constant_py_float:
  "ir_constant (PyFloat r) None =
     Inr (OpResult (arith_ConstantOp F32Type (FloatAttr F32Type r)) 0,
          [arith_ConstantOp F32Type (FloatAttr F32Type r)])"
  by (simp add: ir_constant_def dtype_to_ir_type_def numeric_ir_type_def emit_def py_float_def)

lemma ir_constant_unsupported:
  assumes "host_dtype x = Some (d, v)" and "d \<notin> {Int8, Int32, UInt32, Float32, BFloat16, Bool}"
    and "\<not> isinstance_float x"
  shows "\<exists>msg. ir_constant x t = Inl (NotImplementedError msg)"
proof -
  from assms(1) have ni: "\<not> isinstance_int x" by (cases x) auto
  show ?thesis
  proof (cases t)
    case None
    with assms ni show ?thesis
      by (cases d) (auto simp: ir_constant_def dtype_to_ir_type_def split: sum.splits)
  next
    case (Some a)
    with assms ni show ?thesis by (auto simp: ir_constant_def)
  qed
qed

text \<open>
  C9, as the code has it. With no requested type, a Python integer in the 32-bit
  range gives one \<open>arith.constant\<close> of type \<open>i32\<close> and a Python float one of
  type \<open>f32\<close>. A NumPy value whose dtype is outside int8, int32, uint32, float32,
  bfloat16 and bool, and which is not an instance of Python \<open>float\<close> (a float64
  NumPy scalar is one), raises NotImplementedError, whatever type is requested.
\<close>

theorem ir_constant_types:
  "(- (2 ^ 31) \<le> n \<and> n < 2 ^ 31 \<longrightarrow>
      ir_constant (PyInt n) None =
        Inr (OpResult (arith_ConstantOp (IntegerType 32) (IntegerAttr (IntegerType 32) n)) 0,
             [arith_ConstantOp (IntegerType 32) (IntegerAttr (IntegerType 32) n)])) \<and>
   ir_constant (PyFloat r) None =
     Inr (OpResult (arith_ConstantOp F32Type (FloatAttr F32Type r)) 0,
          [arith_ConstantOp F32Type (FloatAttr F32Type r)]) \<and>
   (host_dtype x = Some (d, v) \<and> d \<notin> {Int8, Int32, UInt32, Float32, BFloat16, Bool} \<and>
    \<not> isinstance_float x \<longrightarrow>
      (\<exists>msg. ir_constant x t = Inl (NotImplementedError msg)))"
  using ir_constant_py_int [of n] ir_constant_py_float [of r] ir_constant_unsupported [of x d v t]
  by blast

theorem ir_constant_types_witness:
  "ir_constant (PyInt 5) None =
     Inr (OpResult (arith_ConstantOp (IntegerType 32) (IntegerAttr (IntegerType 32) 5)) 0,
          [arith_ConstantOp (IntegerType 32) (IntegerAttr (IntegerType 32) 5)]) \<and>
   value_type (OpResult (arith_ConstantOp (IntegerType 32) (IntegerAttr (IntegerType 32) 5)) 0) =
     IntegerType 32 \<and>
   (\<exists>msg. ir_constant (NpArray Int16 (IntVal 7)) None = Inl (NotImplementedError msg))"
proof -
  have r: "- (2 ^ 31) \<le> (5::int) \<and> (5::int) < 2 ^ 31" by simp
  have h: "host_dtype (NpArray Int16 (IntVal 7)) = Some (Int16, IntVal 7) \<and>
      Int16 \<notin> {Int8, Int32, UInt32, Float32, BFloat16, Bool} \<and>
      \<not> isinstance_float (NpArray Int16 (IntVal 7))" by simp
  from ir_constant_types [of 5 0 "NpArray Int16 (IntVal 7)" Int16 "IntVal 7" None] r h
  show ?thesis by (simp add: arith_ConstantOp_def)
qed

text \<open>
  The claim as written fails on unsigned 32-bit integers, which the code accepts by
  name: the dtype is outside the claim's set and a constant is produced.
\<close>

theorem ir_constant_uint32_counterexample:
  "host_dtype (NpArray UInt32 (IntVal 7)) = Some (UInt32, IntVal 7) \<and>
   UInt32 \<notin> {Int8, Int32, Float32, BFloat16, Bool} \<and>
   ir_constant (NpArray UInt32 (IntVal 7)) None =
     Inr (OpResult (arith_ConstantOp (IntegerType 32) (IntegerAttr (IntegerType 32) 7)) 0,
          [arith_ConstantOp (IntegerType 32) (IntegerAttr (IntegerType 32) 7)])"
  by (simp add: ir_constant_def dtype_to_ir_type_def numeric_ir_type_def emit_def py_int_def)

section \<open>Scope markers of the dispatcher\<close>

lemma count_ops_Nil [simp]: "count_ops n [] = 0"
  by (simp add: count_ops_def)

lemma count_ops_append [simp]: "count_ops n (xs @ ys) = count_ops n xs + count_ops n ys"
  by (simp add: count_ops_def)

lemma count_ops_Cons [simp]: "count_ops n (x # xs) = count_op n x + count_ops n xs"
  by (simp add: count_ops_def)

lemma count_ops_stops:
  "count_ops ''tpu.trace_stop'' (map (\<lambda>_. TraceStopOp) xs) = length xs"
  "count_ops ''tpu.trace_start'' (map (\<lambda>_. TraceStopOp) xs) = 0"
  by (induction xs) (simp_all add: TraceStopOp_def)

lemma count_ops_starts:
  "count_ops ''tpu.trace_start'' (map (\<lambda>name. TraceStartOp name l) xs) = length xs"
  "count_ops ''tpu.trace_stop'' (map (\<lambda>name. TraceStartOp name l) xs) = 0"
  by (induction xs) (simp_all add: TraceStartOp_def)

lemma ir_constant_ops:
  "ir_constant h t = Inr (v, ops) \<Longrightarrow> \<exists>ty a. ops = [arith_ConstantOp ty a]"
  by (auto simp: ir_constant_def emit_def split: sum.splits option.splits if_splits prod.splits)

lemma ir_constant_count:
  assumes "ir_constant h t = Inr (v, ops)" and "n \<noteq> ''arith.constant''"
  shows "count_ops n ops = 0"
  using ir_constant_ops[OF assms(1)] assms(2) by (auto simp: arith_ConstantOp_def)

lemma ensure_mlir_value_count:
  assumes "ensure_mlir_value x a = Inr (v, ops)" and "n \<noteq> ''arith.constant''"
  shows "count_ops n ops = 0"
  using assms ir_constant_count[of _ _ _ _ n]
  by (auto simp: ensure_mlir_value_def returns_def then_do_def
      split: pyval.splits host.splits sum.splits prod.splits)

lemma sequence_lowered_count:
  assumes "sequence_lowered ms = Inr (xs, ops)"
    and "\<And>m x ops'. m \<in> set ms \<Longrightarrow> m = Inr (x, ops') \<Longrightarrow> count_ops n ops' = 0"
  shows "count_ops n ops = 0"
  using assms
proof (induction ms arbitrary: xs ops)
  case Nil
  then show ?case by simp
next
  case (Cons m ms)
  from Cons.prems(1) obtain x o1 xs' o2 where m: "m = Inr (x, o1)"
    and r: "sequence_lowered ms = Inr (xs', o2)" and ops: "ops = o1 @ o2"
    by (auto split: sum.splits prod.splits)
  from Cons.prems(2)[of m x o1] m have "count_ops n o1 = 0" by simp
  moreover from Cons.IH[OF r] Cons.prems(2) have "count_ops n o2 = 0" by auto
  ultimately show ?case using ops by simp
qed

lemma common_prefix_idx_le:
  "common_prefix_idx xs ys \<le> length xs \<and> common_prefix_idx xs ys \<le> length ys"
  by (induction xs ys rule: common_prefix_idx.induct) auto

lemma compute_name_stack_updates_lengths:
  assumes "compute_name_stack_updates old new = (popped, pushed)"
  shows "length new + length popped = length old + length pushed"
  using assms common_prefix_idx_le[of old new]
  by (auto simp: compute_name_stack_updates_def Let_def)

lemma common_prefix_idx_append: "common_prefix_idx (xs @ ys) xs = length xs"
  by (induction xs) auto

lemma compute_name_stack_updates_drain:
  "compute_name_stack_updates (init @ suffix) init = (suffix, [])"
  by (simp add: compute_name_stack_updates_def common_prefix_idx_append)

lemma write_env_stack:
  "write_env st x v = Inr st' \<Longrightarrow> current_name_stack st' = current_name_stack st"
  by (cases v) (auto simp: write_env_def)

lemma write_envs_stack:
  "write_envs st xs vs = Inr st' \<Longrightarrow> current_name_stack st' = current_name_stack st"
proof (induction st xs vs arbitrary: st' rule: write_envs.induct)
  case (2 st x xs v vs)
  from 2(2) obtain st1 where a: "write_env st x v = Inr st1" and b: "write_envs st1 xs vs = Inr st'"
    by (cases "write_env st x v") auto
  from 2(1)[OF a b] write_env_stack[OF a] show ?case by simp
qed simp_all

lemma safe_write_envs_stack:
  "safe_write_envs st xs vs = Inr st' \<Longrightarrow> current_name_stack st' = current_name_stack st"
  by (cases "length xs \<noteq> length vs") (auto simp: safe_write_envs_def intro: write_envs_stack)

lemma bind_outvars_stack:
  assumes "bind_outvars st e a = Inr st'"
  shows "current_name_stack st' = current_name_stack st"
proof (cases "multiple_results (eqn_primitive e)")
  case True
  with assms obtain vs where "safe_write_envs st (eqn_outvars e) vs = Inr st'"
    by (cases a) (auto simp: bind_outvars_def)
  then show ?thesis by (rule safe_write_envs_stack)
next
  case False
  with assms obtain x v where "write_env st x v = Inr st'"
    by (cases a; cases "eqn_outvars e") (auto simp: bind_outvars_def)
  then show ?thesis by (rule write_env_stack)
qed

lemma initial_state_stack:
  assumes "initial_state ctx jaxpr args = Inr st"
  shows "current_name_stack st = name_stack ctx"
proof -
  from assms have "safe_write_envs
          \<lparr>env = Map.empty,
           block_shape_env = map_of (zip (invars jaxpr) (block_shapes ctx)),
           current_name_stack = name_stack ctx\<rparr>
          (invars jaxpr) args = Inr st"
    by (simp add: initial_state_def split: if_splits)
  from safe_write_envs_stack[OF this] show ?thesis by simp
qed

text \<open>The net number of markers one equation emits is the change of the stack depth.\<close>

lemma lower_eqn_markers:
  assumes rec: "\<And>c j xs outs ops'. rec c j xs = Some (Inr (outs, ops')) \<Longrightarrow> trace_balanced ops'"
    and rules: "\<And>p r. lowering_rules tabs p = Some r \<Longrightarrow> marker_preserving r"
    and run: "lower_eqn rec tabs ctx e st = Some (Inr (st', ops))"
  shows "count_ops ''tpu.trace_start'' ops + length (current_name_stack st) =
         count_ops ''tpu.trace_stop'' ops + length (current_name_stack st') \<and>
         current_name_stack st' = name_stack ctx @ eqn_name_stack e"
proof -
  from run obtain invals where inv: "sequence (map (read_env st) (eqn_invars e)) = Inr invals"
    by (auto simp: lower_eqn_def split: sum.splits)
  from run inv obtain rule where rule: "lowering_rules tabs (eqn_primitive e) = Some rule"
    by (auto simp: lower_eqn_def split: option.splits)
  from run inv rule obtain invals' conv_ops where conv: "convert_invals tabs e invals = Inr (invals', conv_ops)"
    by (auto simp: lower_eqn_def split: sum.splits)
  obtain popped pushed where upd:
    "compute_name_stack_updates (current_name_stack st) (name_stack ctx @ eqn_name_stack e) = (popped, pushed)"
    by (cases "compute_name_stack_updates (current_name_stack st) (name_stack ctx @ eqn_name_stack e)")
  let ?rctx = "make_rule_context ctx e st"
  let ?st1 = "st\<lparr>current_name_stack := name_stack ctx @ eqn_name_stack e\<rparr>"
  from run inv rule conv upd obtain a rule_ops where
    r: "rule rec ?rctx invals' (eqn_params e) = Some (Inr (a, rule_ops))"
    and b: "bind_outvars ?st1 e a = Inr st'"
    and ops: "ops = conv_ops @ (map (\<lambda>_. TraceStopOp) popped @ map (\<lambda>name. TraceStartOp name 10) pushed) @ rule_ops"
    unfolding lower_eqn_def
    by (simp add: Let_def split: option.splits sum.splits prod.splits)
  from rules[OF rule] rec r have bal: "trace_balanced rule_ops"
    unfolding marker_preserving_def by blast
  have c0: "count_ops ''tpu.trace_start'' conv_ops = 0 \<and> count_ops ''tpu.trace_stop'' conv_ops = 0"
  proof (cases "eqn_primitive e \<notin> skip_mlir_conversions tabs")
    case True
    with conv[unfolded convert_invals_def] have sl: "sequence_lowered
                             (map (\<lambda>(x, v). ensure_mlir_value x (atom_aval v))
                                (zip invals (eqn_invars e))) = Inr (invals', conv_ops)" by simp
    have "count_ops n conv_ops = 0" if "n \<noteq> ''arith.constant''" for n
    proof (rule sequence_lowered_count[OF sl])
      fix m x ops'
      assume "m \<in> set (map (\<lambda>(x, v). ensure_mlir_value x (atom_aval v)) (zip invals (eqn_invars e)))"
        and "m = Inr (x, ops')"
      then obtain y v where "ensure_mlir_value y (atom_aval v) = Inr (x, ops')" by auto
      from ensure_mlir_value_count[OF this that] show "count_ops n ops' = 0" .
    qed
    then show ?thesis by simp
  next
    case False
    with conv show ?thesis by (simp add: convert_invals_def)
  qed
  from bind_outvars_stack[OF b] have st': "current_name_stack st' = name_stack ctx @ eqn_name_stack e"
    by simp
  from compute_name_stack_updates_lengths[OF upd]
  have len: "length (name_stack ctx @ eqn_name_stack e) + length popped =
     length (current_name_stack st) + length pushed" .
  from bal have "count_ops ''tpu.trace_start'' rule_ops = count_ops ''tpu.trace_stop'' rule_ops"
    by (simp add: trace_balanced_def)
  with c0 len st' show ?thesis
    unfolding ops by (simp add: count_ops_stops count_ops_starts)
qed

lemma lower_eqns_markers:
  assumes rec: "\<And>c j xs outs ops'. rec c j xs = Some (Inr (outs, ops')) \<Longrightarrow> trace_balanced ops'"
    and rules: "\<And>p r. lowering_rules tabs p = Some r \<Longrightarrow> marker_preserving r"
  shows "lower_eqns rec tabs ctx es st = Some (Inr (st', ops)) \<Longrightarrow>
         (\<exists>suffix. current_name_stack st = name_stack ctx @ suffix) \<Longrightarrow>
         count_ops ''tpu.trace_start'' ops + length (current_name_stack st) =
         count_ops ''tpu.trace_stop'' ops + length (current_name_stack st') \<and>
         (\<exists>suffix. current_name_stack st' = name_stack ctx @ suffix)"
proof (induction es arbitrary: st st' ops)
  case Nil
  then show ?case by auto
next
  case (Cons e es)
  from Cons.prems(1) obtain st1 ops1 ops2 where
    one: "lower_eqn rec tabs ctx e st = Some (Inr (st1, ops1))"
    and rest: "lower_eqns rec tabs ctx es st1 = Some (Inr (st', ops2))"
    and ops: "ops = ops1 @ ops2"
    by (auto split: option.splits sum.splits prod.splits)
  have "count_ops ''tpu.trace_start'' ops1 + length (current_name_stack st) =
         count_ops ''tpu.trace_stop'' ops1 + length (current_name_stack st1) \<and>
         current_name_stack st1 = name_stack ctx @ eqn_name_stack e"
    by (rule lower_eqn_markers[OF _ _ one]) (blast intro: rec rules)+
  then have a: "count_ops ''tpu.trace_start'' ops1 + length (current_name_stack st) =
         count_ops ''tpu.trace_stop'' ops1 + length (current_name_stack st1)"
    and s1: "current_name_stack st1 = name_stack ctx @ eqn_name_stack e"
    by (blast, blast)
  from s1 have "\<exists>suffix. current_name_stack st1 = name_stack ctx @ suffix" by blast
  from Cons.IH[OF rest this]
  have b: "count_ops ''tpu.trace_start'' ops2 + length (current_name_stack st1) =
         count_ops ''tpu.trace_stop'' ops2 + length (current_name_stack st')"
    and s': "\<exists>suffix. current_name_stack st' = name_stack ctx @ suffix"
    by (blast, blast)
  from a b s' show ?case unfolding ops by simp
qed

lemma finish_markers:
  assumes "finish ctx jaxpr st = Inr (outs, ops)"
  shows "count_ops ''tpu.trace_start'' ops = 0 \<and>
         count_ops ''tpu.trace_stop'' ops + length (name_stack ctx) = length (current_name_stack st)"
proof -
  obtain popped pushed where upd:
    "compute_name_stack_updates (current_name_stack st) (name_stack ctx) = (popped, pushed)"
    by (cases "compute_name_stack_updates (current_name_stack st) (name_stack ctx)")
  from assms upd have pushed: "pushed = []"
    by (auto simp: finish_def split: if_splits)
  from assms upd pushed obtain ops' where
    sl: "sequence_lowered (map (read_outvar st) (outvars jaxpr)) = Inr (outs, ops')"
    and ops: "ops = map (\<lambda>_. TraceStopOp) popped @ ops'"
    by (auto simp: finish_def split: sum.splits)
  have z: "count_ops n ops' = 0" if "n \<noteq> ''arith.constant''" for n
  proof (rule sequence_lowered_count[OF sl])
    fix m x o1
    assume "m \<in> set (map (read_outvar st) (outvars jaxpr))" and "m = Inr (x, o1)"
    then obtain a where r: "read_outvar st a = Inr (x, o1)" by auto
    show "count_ops n o1 = 0"
    proof (cases a)
      case (AVar y)
      with r show ?thesis
        by (auto simp: read_outvar_def returns_def split: option.splits)
    next
      case (Literal h av)
      with r obtain v where "ir_constant h None = Inr (v, o1)"
        by (auto simp: read_outvar_def returns_def then_do_def split: sum.splits prod.splits)
      from ir_constant_count[OF this that] show ?thesis .
    qed
  qed
  from compute_name_stack_updates_lengths[OF upd] pushed
  have "length (name_stack ctx) + length popped = length (current_name_stack st)" by simp
  with z show ?thesis unfolding ops by (simp add: count_ops_stops)
qed

lemma jaxpr_subcomp_balanced:
  assumes all_rules: "\<forall>p r. lowering_rules tabs p = Some r \<longrightarrow> marker_preserving r"
  shows "jaxpr_subcomp n tabs ctx jaxpr args = Some (Inr (outs, ops)) \<Longrightarrow> trace_balanced ops"
proof (induction n arbitrary: ctx jaxpr args outs ops)
  case 0
  then show ?case by simp
next
  case (Suc n)
  from all_rules have rules: "\<And>p r. lowering_rules tabs p = Some r \<Longrightarrow> marker_preserving r"
    by blast
  from Suc.prems obtain st0 st ops1 ops2 where
    init: "initial_state ctx jaxpr args = Inr st0"
    and loop: "lower_eqns (jaxpr_subcomp n tabs) tabs ctx (eqns jaxpr) st0 = Some (Inr (st, ops1))"
    and fin: "finish ctx jaxpr st = Inr (outs, ops2)"
    and ops: "ops = ops1 @ ops2"
    by (auto simp: jaxpr_subcomp_body_def split: sum.splits option.splits prod.splits)
  from initial_state_stack[OF init] have s0: "current_name_stack st0 = name_stack ctx" .
  then have s0': "\<exists>suffix. current_name_stack st0 = name_stack ctx @ suffix" by simp
  have "count_ops ''tpu.trace_start'' ops1 + length (current_name_stack st0) =
         count_ops ''tpu.trace_stop'' ops1 + length (current_name_stack st) \<and>
         (\<exists>suffix. current_name_stack st = name_stack ctx @ suffix)"
    by (rule lower_eqns_markers[OF _ _ loop s0']) (use Suc.IH rules in blast)+
  with finish_markers[OF fin] s0 show ?case
    unfolding ops by (simp add: trace_balanced_def)
qed

lemma jaxpr_subcomp_drain:
  assumes all_rules: "\<forall>p r. lowering_rules tabs p = Some r \<longrightarrow> marker_preserving r"
    and run: "jaxpr_subcomp (Suc n) tabs ctx jaxpr args = Some (Inr (outs, ops))"
  shows "\<exists>st0 st ops1 suffix.
           initial_state ctx jaxpr args = Inr st0 \<and>
           lower_eqns (jaxpr_subcomp n tabs) tabs ctx (eqns jaxpr) st0 = Some (Inr (st, ops1)) \<and>
           current_name_stack st = name_stack ctx @ suffix \<and>
           compute_name_stack_updates (current_name_stack st) (name_stack ctx) = (suffix, [])"
proof -
  from all_rules have rules: "\<And>p r. lowering_rules tabs p = Some r \<Longrightarrow> marker_preserving r"
    by blast
  from run obtain st0 st ops1 where
    init: "initial_state ctx jaxpr args = Inr st0"
    and loop: "lower_eqns (jaxpr_subcomp n tabs) tabs ctx (eqns jaxpr) st0 = Some (Inr (st, ops1))"
    by (auto simp: jaxpr_subcomp_body_def split: sum.splits option.splits prod.splits)
  from initial_state_stack[OF init] have s0: "current_name_stack st0 = name_stack ctx" .
  then have s0': "\<exists>suffix. current_name_stack st0 = name_stack ctx @ suffix" by simp
  have "count_ops ''tpu.trace_start'' ops1 + length (current_name_stack st0) =
         count_ops ''tpu.trace_stop'' ops1 + length (current_name_stack st) \<and>
         (\<exists>suffix. current_name_stack st = name_stack ctx @ suffix)"
    by (rule lower_eqns_markers[OF _ _ loop s0'])
       (use jaxpr_subcomp_balanced[OF all_rules, of n] rules in blast)+
  then obtain suffix where "current_name_stack st = name_stack ctx @ suffix" by blast
  with init loop compute_name_stack_updates_drain[of "name_stack ctx" suffix]
  show ?thesis by auto
qed

lemma pjit_marker_preserving: "marker_preserving pjit_lowering_rule"
  unfolding marker_preserving_def pjit_lowering_rule_def
  by (auto split: option.splits param.splits sum.splits prod.splits)

lemma delay_marker_preserving: "marker_preserving delay_rule"
  unfolding marker_preserving_def delay_rule_def
  by (auto simp: trace_balanced_def split: list.splits pyval.splits)

lemma small_tables_preserving:
  "\<forall>p r. lowering_rules small_tables p = Some r \<longrightarrow> marker_preserving r"
  by (auto simp: small_tables_def pjit_marker_preserving delay_marker_preserving split: if_splits)

lemma ctx0_fields:
  "block_shapes ctx0 = [None]" "name_stack ctx0 = []" "ctx0\<lparr>block_shapes := [None]\<rparr> = ctx0"
  by (simp_all add: ctx0_def)

lemma small_tables_fields:
  "lowering_rules small_tables delay_p = Some delay_rule"
  "lowering_rules small_tables pjit_p = Some pjit_lowering_rule"
  "skip_mlir_conversions small_tables = {}"
  by (simp_all add: small_tables_def delay_p_def pjit_p_def)

lemma primitive_fields:
  "multiple_results delay_p" "multiple_results pjit_p"
  by (simp_all add: delay_p_def pjit_p_def)

lemma inner_run:
  "jaxpr_subcomp (Suc 0) small_tables ctx0 inner_jaxpr [IR arg0] =
     Some (Inr ([], [TraceStartOp ''a'' 10, TraceStartOp ''b'' 10,
                     Operation ''tpu.delay'' [arg0] [] [] [], TraceStopOp, TraceStopOp]))"
  by (simp add: jaxpr_subcomp_body_def initial_state_def safe_write_envs_def write_env_def
      inner_jaxpr_def ctx0_fields x0_def lower_eqn_def read_env_def small_tables_fields
      ensure_mlir_value_def returns_def compute_name_stack_updates_def Let_def
      convert_invals_def make_rule_context_def
      delay_rule_def bind_outvars_def finish_def read_block_shape_def primitive_fields)

lemma outer_run:
  "jaxpr_subcomp (Suc (Suc 0)) small_tables ctx0 outer_jaxpr [IR arg0] = Some (Inr ([], outer_ops))"
  apply (subst jaxpr_subcomp.simps(2))
  apply (simp add: jaxpr_subcomp_body_def initial_state_def safe_write_envs_def write_env_def
      outer_jaxpr_def ctx0_fields lower_eqn_def read_env_def small_tables_fields
      ensure_mlir_value_def returns_def compute_name_stack_updates_def Let_def
      convert_invals_def make_rule_context_def
      delay_rule_def bind_outvars_def finish_def read_block_shape_def pjit_lowering_rule_def
      outer_ops_def inner_run primitive_fields del: jaxpr_subcomp.simps)
  done

text \<open>
  C2. Over a rule table whose rules emit trace markers only through the nested
  dispatcher calls they make, every dispatcher call that returns has emitted as many
  \<open>tpu.trace_stop\<close> as \<open>tpu.trace_start\<close> operations, nested regions and nested
  calls included. At the end of the equation loop the current name stack is the
  entry stack followed by the scopes still open, and the drain pops exactly these
  and pushes nothing.
\<close>

theorem scope_markers_balanced:
  assumes "\<forall>p r. lowering_rules tabs p = Some r \<longrightarrow> marker_preserving r"
    and "jaxpr_subcomp n tabs ctx jaxpr args = Some (Inr (outs, ops))"
  shows "count_ops ''tpu.trace_stop'' ops = count_ops ''tpu.trace_start'' ops \<and>
     (\<exists>m st0 st ops1 suffix.
         n = Suc m \<and> initial_state ctx jaxpr args = Inr st0 \<and>
         lower_eqns (jaxpr_subcomp m tabs) tabs ctx (eqns jaxpr) st0 = Some (Inr (st, ops1)) \<and>
         current_name_stack st = name_stack ctx @ suffix \<and>
         compute_name_stack_updates (current_name_stack st) (name_stack ctx) = (suffix, []))"
proof
  from jaxpr_subcomp_balanced[OF assms(1) assms(2)]
  show "count_ops ''tpu.trace_stop'' ops = count_ops ''tpu.trace_start'' ops"
    by (simp add: trace_balanced_def)
  from assms(2) obtain m where n: "n = Suc m" by (cases n) auto
  from jaxpr_subcomp_drain[OF assms(1) assms(2)[unfolded n]] n
  show "\<exists>m st0 st ops1 suffix.
         n = Suc m \<and> initial_state ctx jaxpr args = Inr st0 \<and>
         lower_eqns (jaxpr_subcomp m tabs) tabs ctx (eqns jaxpr) st0 = Some (Inr (st, ops1)) \<and>
         current_name_stack st = name_stack ctx @ suffix \<and>
         compute_name_stack_updates (current_name_stack st) (name_stack ctx) = (suffix, [])"
    by blast
qed

theorem scope_markers_balanced_witness:
  "jaxpr_subcomp (Suc (Suc 0)) small_tables ctx0 outer_jaxpr [IR arg0] = Some (Inr ([], outer_ops)) \<and>
   count_ops ''tpu.trace_start'' outer_ops = 4 \<and>
   count_ops ''tpu.trace_stop'' outer_ops = count_ops ''tpu.trace_start'' outer_ops"
proof -
  from scope_markers_balanced [OF small_tables_preserving outer_run]
  have "count_ops ''tpu.trace_stop'' outer_ops = count_ops ''tpu.trace_start'' outer_ops"
    by blast
  moreover have "count_ops ''tpu.trace_start'' outer_ops = 4"
    by (simp add: outer_ops_def TraceStartOp_def TraceStopOp_def)
  ultimately show ?thesis using outer_run by simp
qed

section \<open>Errors of the dispatcher\<close>

lemma lower_eqns_append:
  "lower_eqns rec tabs ctx (pre @ rest) st =
     (case lower_eqns rec tabs ctx pre st of
        None \<Rightarrow> None
      | Some (Inl x) \<Rightarrow> Some (Inl x)
      | Some (Inr (st', ops)) \<Rightarrow>
          (case lower_eqns rec tabs ctx rest st' of
             None \<Rightarrow> None
           | Some (Inl x) \<Rightarrow> Some (Inl x)
           | Some (Inr (st'', ops')) \<Rightarrow> Some (Inr (st'', ops @ ops'))))"
  by (induction pre arbitrary: st) (auto split: option.splits sum.splits prod.splits)

lemma lower_eqn_unregistered:
  assumes "lowering_rules tabs (eqn_primitive e) = None"
    and "sequence (map (read_env st) (eqn_invars e)) = Inr invals"
  shows "lower_eqn rec tabs ctx e st =
     Some (Inl (unimplemented_primitive (primitive_name (eqn_primitive e))))"
  using assms by (simp add: lower_eqn_def)

lemma jaxpr_subcomp_unregistered:
  assumes unreg: "lowering_rules tabs (eqn_primitive e) = None"
    and shape: "eqns jaxpr = pre @ e # post"
    and init: "initial_state ctx jaxpr args = Inr st0"
    and pre: "lower_eqns (jaxpr_subcomp n tabs) tabs ctx pre st0 = Some (Inr (st, ops))"
    and reads: "sequence (map (read_env st) (eqn_invars e)) = Inr invals"
  shows "jaxpr_subcomp (Suc n) tabs ctx jaxpr args =
     Some (Inl (unimplemented_primitive (primitive_name (eqn_primitive e))))"
  using init pre lower_eqn_unregistered[OF unreg reads]
  by (simp add: jaxpr_subcomp_body_def shape lower_eqns_append)

lemma lower_eqn_rule_raises:
  assumes "sequence (map (read_env st) (eqn_invars e)) = Inr invals"
    and "lowering_rules tabs (eqn_primitive e) = Some r"
    and "convert_invals tabs e invals = Inr (invals', conv_ops)"
    and "r rec (make_rule_context ctx e st) invals' (eqn_params e) = Some (Inl x)"
  shows "lower_eqn rec tabs ctx e st = Some (Inl (wrap_exception x))"
  using assms by (simp add: lower_eqn_def Let_def split: prod.splits)

lemma unimplemented_primitive_plain:
  "wrap_exception (unimplemented_primitive name) = LoweringException (unimplemented_primitive name)"
  "lowering_exceptions (unimplemented_primitive name) = 0"
  by (simp_all add: wrap_exception_def unimplemented_primitive_def)

lemma foo_facts:
  "lowering_rules small_tables (eqn_primitive (Eqn foo_p [AVar x0] [Var 1 (ShapedArray [] Int32)] [] [])) = None"
  "eqns foo_jaxpr = [] @ Eqn foo_p [AVar x0] [Var 1 (ShapedArray [] Int32)] [] [] # []"
  "primitive_name (eqn_primitive (Eqn foo_p [AVar x0] [Var 1 (ShapedArray [] Int32)] [] [])) = ''foo''"
  by (simp_all add: small_tables_def foo_p_def pjit_p_def delay_p_def foo_jaxpr_def)

lemma initial_state_x0:
  "initial_state ctx0 (Jaxpr [] [x0] es os) [IR arg0] =
     Inr \<lparr>env = [x0 \<mapsto> IR arg0], block_shape_env = [x0 \<mapsto> None], current_name_stack = []\<rparr>"
  by (simp add: initial_state_def safe_write_envs_def write_env_def ctx0_fields)

lemma read_x0:
  "sequence (map (read_env \<lparr>env = [x0 \<mapsto> IR arg0], block_shape_env = [x0 \<mapsto> None],
      current_name_stack = []\<rparr>) [AVar x0]) = Inr [IR arg0]"
  by (simp add: read_env_def)

lemma convert_x0:
  "convert_invals small_tables (Eqn pjit_p [AVar x0] [] ps ns) [IR arg0] = Inr ([IR arg0], [])"
  by (simp add: convert_invals_def small_tables_fields ensure_mlir_value_def returns_def)

lemma rule_context_x0:
  "lowering_context (make_rule_context ctx0 (Eqn pjit_p [AVar x0] [] ps ns)
      \<lparr>env = [x0 \<mapsto> IR arg0], block_shape_env = [x0 \<mapsto> None], current_name_stack = []\<rparr>)
     \<lparr>block_shapes := rule_block_shapes (make_rule_context ctx0 (Eqn pjit_p [AVar x0] [] ps ns)
      \<lparr>env = [x0 \<mapsto> IR arg0], block_shape_env = [x0 \<mapsto> None], current_name_stack = []\<rparr>)\<rparr> = ctx0"
  by (simp add: make_rule_context_def read_block_shape_def ctx0_def)

text \<open>
  C1, as the code has it. The \<open>raise\<close> for a primitive without a rule stands
  outside the \<open>try\<close> of the dispatcher: a jaxpr whose equations lower up to an
  equation of an unregistered primitive raises the NotImplementedError naming the
  primitive, not wrapped in any \<open>LoweringException\<close>. When that error (or any
  exception that is no \<open>LoweringException\<close>) leaves the rule of an enclosing
  equation, as it does when the jaxpr is lowered by the rule's nested dispatcher
  call, the enclosing dispatcher raises one \<open>LoweringException\<close> whose cause is
  that error; a \<open>LoweringException\<close> leaving a rule is re-raised unchanged.
\<close>

theorem unregistered_primitive_error:
  assumes "lowering_rules tabs (eqn_primitive e) = None"
    and "eqns jaxpr = pre @ e # post"
    and "initial_state ctx jaxpr args = Inr st0"
    and "lower_eqns (jaxpr_subcomp n tabs) tabs ctx pre st0 = Some (Inr (st, ops))"
    and "sequence (map (read_env st) (eqn_invars e)) = Inr invals"
  shows "jaxpr_subcomp (Suc n) tabs ctx jaxpr args =
           Some (Inl (unimplemented_primitive (primitive_name (eqn_primitive e)))) \<and>
         lowering_exceptions (unimplemented_primitive (primitive_name (eqn_primitive e))) = 0 \<and>
         (\<forall>rec octx oe ost r oinvals oinvals' conv_ops.
            sequence (map (read_env ost) (eqn_invars oe)) = Inr oinvals \<and>
            lowering_rules tabs (eqn_primitive oe) = Some r \<and>
            convert_invals tabs oe oinvals = Inr (oinvals', conv_ops) \<longrightarrow>
            (r rec (make_rule_context octx oe ost) oinvals' (eqn_params oe) =
               Some (Inl (unimplemented_primitive (primitive_name (eqn_primitive e)))) \<longrightarrow>
             lower_eqn rec tabs octx oe ost =
               Some (Inl (LoweringException
                 (unimplemented_primitive (primitive_name (eqn_primitive e)))))) \<and>
            (\<forall>c. r rec (make_rule_context octx oe ost) oinvals' (eqn_params oe) =
                    Some (Inl (LoweringException c)) \<longrightarrow>
                  lower_eqn rec tabs octx oe ost = Some (Inl (LoweringException c))))"
proof (intro conjI allI impI)
  show "jaxpr_subcomp (Suc n) tabs ctx jaxpr args =
           Some (Inl (unimplemented_primitive (primitive_name (eqn_primitive e))))"
    using assms by (rule jaxpr_subcomp_unregistered)
  show "lowering_exceptions (unimplemented_primitive (primitive_name (eqn_primitive e))) = 0"
    by (rule unimplemented_primitive_plain)
next
  fix rec octx oe ost r oinvals oinvals' conv_ops
  assume h: "sequence (map (read_env ost) (eqn_invars oe)) = Inr oinvals \<and>
            lowering_rules tabs (eqn_primitive oe) = Some r \<and>
            convert_invals tabs oe oinvals = Inr (oinvals', conv_ops)"
  {
    assume "r rec (make_rule_context octx oe ost) oinvals' (eqn_params oe) =
               Some (Inl (unimplemented_primitive (primitive_name (eqn_primitive e))))"
    with h have "lower_eqn rec tabs octx oe ost =
        Some (Inl (wrap_exception (unimplemented_primitive (primitive_name (eqn_primitive e)))))"
      by (blast intro: lower_eqn_rule_raises)
    then show "lower_eqn rec tabs octx oe ost =
               Some (Inl (LoweringException
                 (unimplemented_primitive (primitive_name (eqn_primitive e)))))"
      by (simp add: unimplemented_primitive_plain)
  }
  {
    fix c
    assume "r rec (make_rule_context octx oe ost) oinvals' (eqn_params oe) =
                    Some (Inl (LoweringException c))"
    with h have "lower_eqn rec tabs octx oe ost = Some (Inl (wrap_exception (LoweringException c)))"
      by (blast intro: lower_eqn_rule_raises)
    then show "lower_eqn rec tabs octx oe ost = Some (Inl (LoweringException c))"
      by (simp add: wrap_exception_def)
  }
qed

text \<open>
  The claim as written fails at the top level: the jaxpr with the single equation
  \<open>foo\<close> raises the NotImplementedError itself, with no \<open>LoweringException\<close>.
\<close>

theorem unregistered_top_level_counterexample:
  "lowering_rules small_tables foo_p = None \<and>
   jaxpr_subcomp (Suc 0) small_tables ctx0 foo_jaxpr [IR arg0] =
     Some (Inl (unimplemented_primitive ''foo'')) \<and>
   lowering_exceptions (unimplemented_primitive ''foo'') = 0"
  by (simp add: jaxpr_subcomp_body_def foo_jaxpr_def initial_state_x0 lower_eqn_def read_env_def
      small_tables_def foo_p_def pjit_p_def delay_p_def unimplemented_primitive_def)

theorem unregistered_primitive_error_witness:
  "jaxpr_subcomp (Suc 0) small_tables ctx0 foo_jaxpr [IR arg0] =
     Some (Inl (unimplemented_primitive ''foo'')) \<and>
   jaxpr_subcomp (Suc (Suc 0)) small_tables ctx0 nested_foo [IR arg0] =
     Some (Inl (LoweringException (unimplemented_primitive ''foo''))) \<and>
   jaxpr_subcomp (Suc (Suc (Suc 0))) small_tables ctx0 nested_nested_foo [IR arg0] =
     Some (Inl (LoweringException (unimplemented_primitive ''foo''))) \<and>
   lowering_exceptions (LoweringException (unimplemented_primitive ''foo'')) = 1"
proof -
  let ?st = "\<lparr>env = [x0 \<mapsto> IR arg0], block_shape_env = [x0 \<mapsto> None], current_name_stack = []\<rparr>"
  let ?U = "unimplemented_primitive ''foo''"
  let ?e1 = "Eqn pjit_p [AVar x0] [] [(''jaxpr'', PJaxpr foo_jaxpr)] []"
  let ?e2 = "Eqn pjit_p [AVar x0] [] [(''jaxpr'', PJaxpr nested_foo)] []"
  have pre: "lower_eqns (jaxpr_subcomp n small_tables) small_tables ctx0 [] ?st = Some (Inr (?st, []))"
    for n by simp
  have init: "initial_state ctx0 foo_jaxpr [IR arg0] = Inr ?st"
    by (simp add: foo_jaxpr_def initial_state_x0)
  have reads: "sequence (map (read_env ?st)
      (eqn_invars (Eqn foo_p [AVar x0] [Var 1 (ShapedArray [] Int32)] [] []))) = Inr [IR arg0]"
    using read_x0 by simp
  note main = unregistered_primitive_error [OF foo_facts(1) foo_facts(2) init pre reads,
      unfolded foo_facts(3)]
  from main have top: "jaxpr_subcomp (Suc n) small_tables ctx0 foo_jaxpr [IR arg0] = Some (Inl ?U)"
    for n by blast
  have r1: "pjit_lowering_rule (jaxpr_subcomp (Suc 0) small_tables) (make_rule_context ctx0 ?e1 ?st)
      [IR arg0] (eqn_params ?e1) = Some (Inl ?U)"
    by (simp add: pjit_lowering_rule_def rule_context_x0 top del: jaxpr_subcomp.simps)
  have h1: "sequence (map (read_env ?st) (eqn_invars ?e1)) = Inr [IR arg0] \<and>
      lowering_rules small_tables (eqn_primitive ?e1) = Some pjit_lowering_rule \<and>
      convert_invals small_tables ?e1 [IR arg0] = Inr ([IR arg0], [])"
    using read_x0 by (simp add: small_tables_fields convert_x0)
  from main [of 0] h1 r1
  have l1: "lower_eqn (jaxpr_subcomp (Suc 0) small_tables) small_tables ctx0 ?e1 ?st =
      Some (Inl (LoweringException ?U))"
    by blast
  have n1: "jaxpr_subcomp (Suc (Suc 0)) small_tables ctx0 nested_foo [IR arg0] =
      Some (Inl (LoweringException ?U))"
    by (subst jaxpr_subcomp.simps(2))
       (simp add: jaxpr_subcomp_body_def nested_foo_def initial_state_x0 l1
          del: jaxpr_subcomp.simps)
  have r2: "pjit_lowering_rule (jaxpr_subcomp (Suc (Suc 0)) small_tables)
      (make_rule_context ctx0 ?e2 ?st) [IR arg0] (eqn_params ?e2) =
      Some (Inl (LoweringException ?U))"
    by (simp add: pjit_lowering_rule_def rule_context_x0 n1 del: jaxpr_subcomp.simps)
  have h2: "sequence (map (read_env ?st) (eqn_invars ?e2)) = Inr [IR arg0] \<and>
      lowering_rules small_tables (eqn_primitive ?e2) = Some pjit_lowering_rule \<and>
      convert_invals small_tables ?e2 [IR arg0] = Inr ([IR arg0], [])"
    using read_x0 by (simp add: small_tables_fields convert_x0)
  from main [of 0] h2 r2
  have l2: "lower_eqn (jaxpr_subcomp (Suc (Suc 0)) small_tables) small_tables ctx0 ?e2 ?st =
      Some (Inl (LoweringException ?U))"
    by blast
  have n2: "jaxpr_subcomp (Suc (Suc (Suc 0))) small_tables ctx0 nested_nested_foo [IR arg0] =
      Some (Inl (LoweringException ?U))"
    by (subst jaxpr_subcomp.simps(2))
       (simp add: jaxpr_subcomp_body_def nested_nested_foo_def initial_state_x0 l2
          del: jaxpr_subcomp.simps)
  from top[of 0] n1 n2 show ?thesis
    by (simp add: unimplemented_primitive_def)
qed

section \<open>Properties of reference indexing\<close>

lemma maybe_cast_zero:
  "maybe_cast_to_index False (PI 0) =
     Inr (OpResult (arith_ConstantOp (IntegerType 32) (IntegerAttr (IntegerType 32) 0)) 0,
          [arith_ConstantOp (IntegerType 32) (IntegerAttr (IntegerType 32) 0)])"
  by (simp add: maybe_cast_to_index_def ensure_mlir_value_def index_map_grid_aval_def
      dtype_to_ir_type_def numeric_ir_type_def ir_constant_def np_array_int32_def emit_def
      then_do_def returns_def py_int_def)

lemma indexer_loop_full:
  "indexer_loop (map (\<lambda>n. SizeDim (PI n)) shape) (map (\<lambda>n. Slice (PI 0) (PI n) 1) shape @ rest) False =
     Inr ((map (\<lambda>n. (OpResult (arith_ConstantOp (IntegerType 32) (IntegerAttr (IntegerType 32) 0)) 0,
                       PI n, 1, False)) shape, rest),
          replicate (length shape) (arith_ConstantOp (IntegerType 32) (IntegerAttr (IntegerType 32) 0)))"
  by (induction shape)
     (simp_all add: returns_def index_to_start_size_stride_def maybe_cast_zero then_do_def)

lemma indexer_full:
  "indexer_to_start_size_stride (full_indexer shape) (map (\<lambda>n. SizeDim (PI n)) shape) False =
     Inr ((replicate (length shape)
             (OpResult (arith_ConstantOp (IntegerType 32) (IntegerAttr (IntegerType 32) 0)) 0),
           map PI shape, replicate (length shape) 1, replicate (length shape) False,
           map (\<lambda>n. SizeDim (PI n)) shape),
          replicate (length shape) (arith_ConstantOp (IntegerType 32) (IntegerAttr (IntegerType 32) 0)))"
  using indexer_loop_full[of shape "[]"]
  by (simp add: indexer_to_start_size_stride_def full_indexer_def comp_def map_replicate_const)

lemma slice_memref_full:
  assumes "aval_dtype ref_aval = Inr d" and "dtype_to_ir_type d False = Inr elt"
    and "value_type r = MemRefType shape0 elt0 ms"
  shows "\<exists>r' ops. slice_memref r ref_aval (full_indexer shape) (Some (map (\<lambda>n. SizeDim (PI n)) shape)) =
           Inr ((r', map (\<lambda>n. SizeDim (PI n)) shape), ops) \<and>
         value_type r' = MemRefType shape elt ms"
  using assms
  by (simp add: slice_memref_def indexer_full type_memory_space_def Let_def static_size_def
      comp_def tpu_MemRefSliceOp_def)

text \<open>
  For a reference whose element type is the same inside a memref as in a register
  (every dtype but the boolean), full slice indexers change neither the type nor
  the block shape.
\<close>

lemma index_ref_full_slices:
  assumes "aval_dtype ref_aval = Inr d" and "dtype_to_ir_type d False = Inr elt"
    and "\<forall>i \<in> set indexers. i = full_indexer shape"
  shows "value_type r = MemRefType shape elt ms \<Longrightarrow>
         \<exists>r' ops. index_ref r ref_aval (Some (map (\<lambda>n. SizeDim (PI n)) shape)) indexers =
           Inr ((r', Some (map (\<lambda>n. SizeDim (PI n)) shape)), ops) \<and>
         value_type r' = value_type r"
  using assms(3)
proof (induction indexers arbitrary: r)
  case Nil
  then show ?case by (simp add: returns_def)
next
  case (Cons i indexers)
  from Cons.prems have i: "i = full_indexer shape" by simp
  from slice_memref_full[OF assms(1,2) Cons.prems(1), of shape]
  obtain r1 ops1 where s: "slice_memref r ref_aval (full_indexer shape)
        (Some (map (\<lambda>n. SizeDim (PI n)) shape)) = Inr ((r1, map (\<lambda>n. SizeDim (PI n)) shape), ops1)"
    and t: "value_type r1 = MemRefType shape elt ms" by blast
  from Cons.IH[OF t] Cons.prems(2)
  obtain r' ops where "index_ref r1 ref_aval (Some (map (\<lambda>n. SizeDim (PI n)) shape)) indexers =
           Inr ((r', Some (map (\<lambda>n. SizeDim (PI n)) shape)), ops)"
    and "value_type r' = value_type r1" by auto
  with s t i Cons.prems(1) show ?case by simp
qed

text \<open>
  C6 at a boolean reference. The reference of block shape (8, 128) has the type
  \<open>aval_to_ir_type\<close> gives a boolean reference, a memref of 32-bit integers;
  \<open>_index_ref\<close> with the full slice indexer returns the block shape unchanged but
  a memref of 1-bit integers: \<open>_slice_memref\<close> computes the element type without
  \<open>is_kernel_boundary\<close>.
\<close>

theorem index_ref_bool_reference:
  "aval_to_ir_type bool_ref_aval (Some [8, 128]) (Some VMEM) False = Inr (value_type bool_ref) \<and>
   (\<exists>r ops. index_ref bool_ref bool_ref_aval (Some (ref_dims [Blocked 8, Blocked 128]))
               [full_indexer [8, 128]] =
             Inr ((r, Some (ref_dims [Blocked 8, Blocked 128])), ops) \<and>
           value_type r = MemRefType [8, 128] (IntegerType 1) VMEM \<and>
           value_type r \<noteq> value_type bool_ref)"
proof -
  have a: "aval_to_ir_type bool_ref_aval (Some [8, 128]) (Some VMEM) False = Inr (value_type bool_ref)"
    by (simp add: aval_to_ir_type_def bool_ref_aval_def bool_ref_def dtype_to_ir_type_def
        numeric_ir_type_def BOOL_MEMREF_TYPE_def memory_space_to_tpu_memspace_def)
  have d: "aval_dtype bool_ref_aval = Inr Bool" "dtype_to_ir_type Bool False = Inr (IntegerType 1)"
    by (simp_all add: bool_ref_aval_def dtype_to_ir_type_def numeric_ir_type_def)
  have t: "value_type bool_ref = MemRefType [8, 128] (IntegerType 32) VMEM"
    by (simp add: bool_ref_def)
  from slice_memref_full[OF d t, of "[8, 128]"]
  obtain r ops where s: "slice_memref bool_ref bool_ref_aval (full_indexer [8, 128])
      (Some [SizeDim (PI 8), SizeDim (PI 128)]) = Inr ((r, [SizeDim (PI 8), SizeDim (PI 128)]), ops)"
    and rt: "value_type r = MemRefType [8, 128] (IntegerType 1) VMEM" by auto
  from s rt t have "index_ref bool_ref bool_ref_aval (Some (ref_dims [Blocked 8, Blocked 128]))
               [full_indexer [8, 128]] =
             Inr ((r, Some (ref_dims [Blocked 8, Blocked 128])), ops) \<and>
           value_type r = MemRefType [8, 128] (IntegerType 1) VMEM \<and>
           value_type r \<noteq> value_type bool_ref"
    by (simp add: ref_dims_def returns_def)
  with a show ?thesis by blast
qed

section \<open>The boolean round trip\<close>










section \<open>Execution of loads and stores\<close>







lemma no_effects_simps [simp]:
  "no_effects []"
  "no_effects (xs @ ys) = (no_effects xs \<and> no_effects ys)"
  "no_effects (x # xs) = (\<not> is_load (op_name x) \<and> \<not> is_store (op_name x) \<and> no_effects xs)"
  by (auto simp: no_effects_def)










section \<open>Booleans through memory\<close>













section \<open>The swap rule returns what it read\<close>


lemma emit_Inr: "emit o1 = Inr (v, ops) \<Longrightarrow> v = OpResult o1 0 \<and> ops = [o1]"
  by (simp add: emit_def)

lemma returns_Inr: "returns x = Inr (v, ops) \<Longrightarrow> v = x \<and> ops = []"
  by (simp add: returns_def)

lemma constant_no_effect [simp]:
  "\<not> is_load (op_name (arith_ConstantOp t a))" "\<not> is_store (op_name (arith_ConstantOp t a))"
  by (simp_all add: arith_ConstantOp_def is_load_def is_store_def)

lemma cast_no_effect [simp]:
  "\<not> is_load (op_name (arith_IndexCastOp t v))" "\<not> is_store (op_name (arith_IndexCastOp t v))"
  "\<not> is_load (op_name (arith_ExtUIOp t v))" "\<not> is_store (op_name (arith_ExtUIOp t v))"
  "\<not> is_load (op_name (arith_CmpIOp p x y))" "\<not> is_store (op_name (arith_CmpIOp p x y))"
  "\<not> is_load (op_name (vector_ShapeCastOp t v))" "\<not> is_store (op_name (vector_ShapeCastOp t v))"
  "\<not> is_load (op_name (tpu_MemRefSliceOp t r ss ds))"
  "\<not> is_store (op_name (tpu_MemRefSliceOp t r ss ds))"
  "\<not> is_load (op_name (tpu_MemRefSqueezeOp t r))"
  "\<not> is_store (op_name (tpu_MemRefSqueezeOp t r))"
  by (simp_all add: arith_IndexCastOp_def arith_ExtUIOp_def arith_CmpIOp_def
      vector_ShapeCastOp_def tpu_MemRefSliceOp_def tpu_MemRefSqueezeOp_def is_load_def is_store_def)























end
